theory Spec2Isabelle
  imports Main "HOL-Library.Word" "HOL-Library.Sublist"
begin

unbundle bit_operations_syntax

section \<open>Bytes, hashes and hexadecimal strings\<close>

text \<open>
  A \<open>chainhash.Hash\<close> is a Go array \<open>[32]byte\<close>.  It is modelled as a list of bytes; the
  predicate \<open>validHash\<close> states the length the Go type enforces.
\<close>

type_synonym byte = "8 word"

type_synonym Hash = "byte list"

definition HashSize :: nat where
  "HashSize = 32"

definition validHash :: "Hash \<Rightarrow> bool" where
  "validHash h = (length h = HashSize)"

text \<open>
  Go's \<open>encoding/hex\<close>: \<open>EncodeToString\<close> writes two lower-case digits per byte, high
  nibble first; \<open>DecodeString\<close> accepts both cases and fails on a character that is
  not a hexadecimal digit and on an odd number of characters.
\<close>

definition hextable :: string where
  "hextable = ''0123456789abcdef''"

definition EncodeToString :: "byte list \<Rightarrow> string" where
  "EncodeToString src =
     concat (map (\<lambda>v. [hextable ! (unat v div 16), hextable ! (unat v mod 16)]) src)"

definition fromHexChar :: "char \<Rightarrow> nat option" where
  "fromHexChar c =
     (let n = of_char c :: nat in
      if 48 \<le> n \<and> n \<le> 57 then Some (n - 48)
      else if 97 \<le> n \<and> n \<le> 102 then Some (n - 97 + 10)
      else if 65 \<le> n \<and> n \<le> 70 then Some (n - 65 + 10)
      else None)"

fun DecodeString :: "string \<Rightarrow> byte list option" where
  "DecodeString [] = Some []"
| "DecodeString [c] = None"
| "DecodeString (c # d # cs) =
     (case fromHexChar c of
        None \<Rightarrow> None
      | Some a \<Rightarrow>
          (case fromHexChar d of
             None \<Rightarrow> None
           | Some b \<Rightarrow>
               (case DecodeString cs of
                  None \<Rightarrow> None
                | Some bs \<Rightarrow> Some (of_nat (a * 16 + b) # bs))))"

text \<open>
  \<open>Hash.String\<close> prints the bytes of a hash in reverse order, in hexadecimal (the test
  file's \<open>decodeHash\<close> reads such "bytes-reversed hash strings").  It is what \<open>%v\<close>
  prints for a hash in the error descriptions of \<open>ProcessBlock\<close>.
\<close>

definition HashString :: "Hash \<Rightarrow> string" where
  "HashString h = EncodeToString (rev h)"


section \<open>Block processing (blockchain/process.go)\<close>

subsection \<open>Data\<close>

text \<open>\<open>BehaviorFlags\<close> is a \<open>uint32\<close> bitmask; the constants are \<open>1 << iota\<close>.\<close>

type_synonym BehaviorFlags = "32 word"

definition BFFastAdd :: BehaviorFlags where
  "BFFastAdd = push_bit 0 1"

definition BFNoPoWCheck :: BehaviorFlags where
  "BFNoPoWCheck = push_bit 1 1"

definition BFNone :: BehaviorFlags where
  "BFNone = 0"

text \<open>
  Errors.  \<open>ruleError c str\<close> builds a \<open>RuleError\<close> from an error code and a
  description.  Of the error codes of the package only the two that \<open>ProcessBlock\<close>
  itself raises are named in process.go; \<open>ErrTimeTooNew\<close> stands for a violation found
  by the context-free sanity check and \<open>ErrOtherRule\<close> for every remaining code.  Any
  other Go error value (an internal failure) is an \<open>AssertError\<close>.
\<close>

datatype ErrorCode =
    ErrDuplicateBlock
  | ErrMissingParent
  | ErrTimeTooNew
  | ErrOtherRule nat

datatype error =
    RuleError ErrorCode string
  | AssertError string

definition ruleError :: "ErrorCode \<Rightarrow> string \<Rightarrow> error" where
  "ruleError c desc = RuleError c desc"

text \<open>
  The candidate block (\<open>dcrutil.Block\<close> around a \<open>wire.MsgBlock\<close>).  \<open>ProcessBlock\<close>
  reads \<open>block.Hash()\<close>, \<open>block.Height()\<close> (for logging only) and
  \<open>block.MsgBlock().Header.PrevBlock\<close>.  The header also carries the timestamp and the
  difficulty bits that the collaborators read.
\<close>

record BlockHeader =
  PrevBlock :: Hash
  HeaderBits :: "32 word"
  Timestamp :: int

record MsgBlock =
  Header :: BlockHeader

record Block =
  blockHash :: Hash
  blockHeight :: int
  msgBlock :: MsgBlock

text \<open>
  Modelled from the spec: the block index and its entries (type \<open>blockIndex\<close>, type
  \<open>blockNode\<close>) are not in process.go.  Section 3 of the specification gives an entry a
  parent hash, a height, a cumulative work and a chain membership, keyed by hash;
  section 4.1 gives \<open>has(hash)\<close> as a membership test over all known blocks, main chain
  and side chains alike.
\<close>

record blockNode =
  parent :: Hash
  height :: int
  workSum :: nat
  inMainChain :: bool

type_synonym blockIndex = "Hash \<rightharpoonup> blockNode"

definition HaveBlock :: "blockIndex \<Rightarrow> Hash \<Rightarrow> bool" where
  "HaveBlock idx h = (idx h \<noteq> None)"

text \<open>
  The receiver \<open>b *BlockChain\<close>: the fields \<open>ProcessBlock\<close> touches.  The time source
  and the chain parameters are opaque to \<open>ProcessBlock\<close>, which only hands them on, so
  their types are parameters.  The two mutexes are not state of the sequential
  function and are left out.
\<close>

record ('ts, 'cp) BlockChain =
  index :: blockIndex
  bestChainTip :: Hash
  timeSource :: 'ts
  chainParams :: 'cp

text \<open>
  The functions \<open>ProcessBlock\<close> calls that are defined elsewhere in the package.  They
  are parameters of the model.  A Go function returning \<open>error\<close> returns
  \<open>error option\<close>; one returning \<open>(v, error)\<close> returns a pair, as Go does.
  The two sanity checks are plain functions of the block, the time source, the
  flags and the chain parameters (and the agenda flag), not methods of the chain.
  The agenda query is a method of the chain; it is taken to read the chain only,
  as section 4.3 of the specification describes it (a lookup) and as section 3
  requires (the index and the best chain pointer are changed by the chain acceptor
  alone).  \<open>maybeAcceptBlock\<close> is the one that may change the chain, so it also
  returns the chain after the call.
\<close>

record ('ts, 'cp) collaborators =
  checkBlockSanityContextFree ::
    "Block \<Rightarrow> 'ts \<Rightarrow> BehaviorFlags \<Rightarrow> 'cp \<Rightarrow> error option"
  isTreasuryAgendaActiveByHash ::
    "('ts, 'cp) BlockChain \<Rightarrow> Hash \<Rightarrow> bool \<times> error option"
  checkBlockSanityContextual ::
    "Block \<Rightarrow> 'ts \<Rightarrow> BehaviorFlags \<Rightarrow> 'cp \<Rightarrow> bool \<Rightarrow> error option"
  maybeAcceptBlock ::
    "('ts, 'cp) BlockChain \<Rightarrow> Block \<Rightarrow> BehaviorFlags \<Rightarrow>
       (int \<times> error option) \<times> ('ts, 'cp) BlockChain"

text \<open>
  What a call of \<open>ProcessBlock\<close> leaves behind: the two return values, the chain after
  the call, and the calls it made on the block index and on its collaborators, in
  the order it made them, each with the argument that matters.  The list of calls
  is not a value of the Go function; it records which lines of the function ran,
  so that statements about the order of the steps can be made.  Logging and the
  two locks are not modelled.
\<close>

datatype call =
    CallHaveBlock Hash
  | CallCheckBlockSanityContextFree
  | CallIsTreasuryAgendaActiveByHash Hash
  | CallCheckBlockSanityContextual bool
  | CallMaybeAcceptBlock

record ('ts, 'cp) outcome =
  forkLen :: int
  err :: "error option"
  chain :: "('ts, 'cp) BlockChain"
  calls :: "call list"

subsection \<open>ProcessBlock\<close>

definition ProcessBlock ::
  "('ts, 'cp) collaborators \<Rightarrow> ('ts, 'cp) BlockChain \<Rightarrow> Block \<Rightarrow> BehaviorFlags \<Rightarrow>
     ('ts, 'cp) outcome" where
  "ProcessBlock c b block flags =
     (let hash = blockHash block in
      if HaveBlock (index b) hash then
        \<lparr>forkLen = 0,
         err = Some (ruleError ErrDuplicateBlock (''already have block '' @ HashString hash)),
         chain = b,
         calls = [CallHaveBlock hash]\<rparr>
      else
       (case checkBlockSanityContextFree c block (timeSource b) flags (chainParams b) of
          Some e \<Rightarrow>
            \<lparr>forkLen = 0, err = Some e, chain = b,
             calls = [CallHaveBlock hash, CallCheckBlockSanityContextFree]\<rparr>
        | None \<Rightarrow>
           (let prevHash = PrevBlock (Header (msgBlock block)) in
            if \<not> HaveBlock (index b) prevHash then
              \<lparr>forkLen = 0,
               err = Some (ruleError ErrMissingParent
                             (''previous block '' @ HashString prevHash @ '' is not known'')),
               chain = b,
               calls = [CallHaveBlock hash, CallCheckBlockSanityContextFree,
                        CallHaveBlock prevHash]\<rparr>
            else
             (case isTreasuryAgendaActiveByHash c b prevHash of
                (isTreasuryEnabled, Some e) \<Rightarrow>
                  \<lparr>forkLen = 0, err = Some e, chain = b,
                   calls = [CallHaveBlock hash, CallCheckBlockSanityContextFree,
                            CallHaveBlock prevHash,
                            CallIsTreasuryAgendaActiveByHash prevHash]\<rparr>
              | (isTreasuryEnabled, None) \<Rightarrow>
                 (case checkBlockSanityContextual c block (timeSource b) flags
                         (chainParams b) isTreasuryEnabled of
                    Some e \<Rightarrow>
                      \<lparr>forkLen = 0, err = Some e, chain = b,
                       calls = [CallHaveBlock hash, CallCheckBlockSanityContextFree,
                                CallHaveBlock prevHash,
                                CallIsTreasuryAgendaActiveByHash prevHash,
                                CallCheckBlockSanityContextual isTreasuryEnabled]\<rparr>
                  | None \<Rightarrow>
                     (case maybeAcceptBlock c b block flags of
                        ((fl, Some e), b') \<Rightarrow>
                          \<lparr>forkLen = 0, err = Some e, chain = b',
                           calls = [CallHaveBlock hash, CallCheckBlockSanityContextFree,
                                    CallHaveBlock prevHash,
                                    CallIsTreasuryAgendaActiveByHash prevHash,
                                    CallCheckBlockSanityContextual isTreasuryEnabled,
                                    CallMaybeAcceptBlock]\<rparr>
                      | ((fl, None), b') \<Rightarrow>
                          \<lparr>forkLen = fl, err = None, chain = b',
                           calls = [CallHaveBlock hash, CallCheckBlockSanityContextFree,
                                    CallHaveBlock prevHash,
                                    CallIsTreasuryAgendaActiveByHash prevHash,
                                    CallCheckBlockSanityContextual isTreasuryEnabled,
                                    CallMaybeAcceptBlock]\<rparr>))))))"


subsection \<open>The collaborators, after the specification\<close>

text \<open>
  Modelled from the spec: \<open>checkBlockSanityContextFree\<close> is not in process.go.  Section
  4.2 of the specification lists, for the context-free phase, structural
  well-formedness, merkle consistency, the proof of work, and a timestamp "within a
  bounded future-skew window (relative to a supplied time source)".  Only the last
  rule is worded precisely enough to be written down, and only it is modelled: the
  time source is the adjusted current time in seconds and the chain parameters carry
  the bound.
\<close>

record Params =
  MaxTimeOffsetSeconds :: int

definition specCheckBlockSanityContextFree ::
  "Block \<Rightarrow> int \<Rightarrow> BehaviorFlags \<Rightarrow> Params \<Rightarrow> error option" where
  "specCheckBlockSanityContextFree block now flags params =
     (if now + MaxTimeOffsetSeconds params < Timestamp (Header (msgBlock block)) then
        Some (ruleError ErrTimeTooNew ''block timestamp is too far in the future'')
      else None)"

text \<open>
  Modelled from the spec: \<open>isTreasuryAgendaActiveByHash\<close> is not in process.go.  Section
  4.3: it "looks up the parent's position in the Block Index and returns whether the
  voting threshold for a given rule change has been met as of that ancestor"; an
  unknown hash is "an internal (fatal) error, not a rule violation".  The votes are
  not part of the data model, so whether the threshold is met at an index entry is
  the parameter \<open>thresholdMet\<close>.
\<close>

definition specIsTreasuryAgendaActiveByHash ::
  "(blockNode \<Rightarrow> bool) \<Rightarrow> (int, Params) BlockChain \<Rightarrow> Hash \<Rightarrow> bool \<times> error option" where
  "specIsTreasuryAgendaActiveByHash thresholdMet b prevHash =
     (case index b prevHash of
        None \<Rightarrow> (False, Some (AssertError (''block '' @ HashString prevHash @ '' is not known'')))
      | Some prevNode \<Rightarrow> (thresholdMet prevNode, None))"

text \<open>
  Modelled from the spec: \<open>checkBlockSanityContextual\<close> is not in process.go.  Section
  4.2: the context-dependent phase checks "additional structural requirements that
  only apply once a particular voted-in agenda has activated", and is told by a
  parameter whether it has.  The requirement itself is the parameter
  \<open>treasuryRulesOK\<close>.
\<close>

definition specCheckBlockSanityContextual ::
  "(Block \<Rightarrow> bool) \<Rightarrow> Block \<Rightarrow> int \<Rightarrow> BehaviorFlags \<Rightarrow> Params \<Rightarrow> bool \<Rightarrow> error option" where
  "specCheckBlockSanityContextual treasuryRulesOK block now flags params isTreasuryEnabled =
     (if isTreasuryEnabled \<and> \<not> treasuryRulesOK block then
        Some (ruleError (ErrOtherRule 0) ''block violates the treasury rules'')
      else None)"

text \<open>
  Modelled from the spec: \<open>maybeAcceptBlock\<close> and the chain it works on are not in
  process.go.  The definitions below follow section 4.4 (Chain Acceptor) and section
  4.1 (\<open>insert\<close> never overwrites an entry).

  \<open>ancestry idx n h\<close> walks the parent links backward from \<open>h\<close>, for at most \<open>n\<close>
  entries; \<open>chainOf\<close> walks from an entry down to height 0.
\<close>

definition insertNode :: "blockIndex \<Rightarrow> Hash \<Rightarrow> blockNode \<Rightarrow> blockIndex" where
  "insertNode idx h n = (if HaveBlock idx h then idx else idx(h \<mapsto> n))"

fun ancestry :: "blockIndex \<Rightarrow> nat \<Rightarrow> Hash \<Rightarrow> Hash list" where
  "ancestry idx 0 h = []"
| "ancestry idx (Suc n) h =
     (case idx h of
        None \<Rightarrow> []
      | Some nd \<Rightarrow> h # ancestry idx n (parent nd))"

definition chainOf :: "blockIndex \<Rightarrow> Hash \<Rightarrow> Hash list" where
  "chainOf idx h =
     (case idx h of
        None \<Rightarrow> []
      | Some nd \<Rightarrow> ancestry idx (Suc (nat (height nd))) h)"

text \<open>
  Modelled from the spec: the common ancestor of the new chain and the old one is
  found by "walking both chains' parent links backward until they meet" (4.4).
  \<open>setMainChain\<close> changes the chain membership of one entry.
\<close>

definition commonAncestor :: "blockIndex \<Rightarrow> Hash \<Rightarrow> Hash \<Rightarrow> Hash option" where
  "commonAncestor idx new old = find (\<lambda>h. h \<in> set (chainOf idx old)) (chainOf idx new)"

definition setMainChain :: "bool \<Rightarrow> Hash \<Rightarrow> blockIndex \<Rightarrow> blockIndex" where
  "setMainChain flag h idx =
     (case idx h of
        None \<Rightarrow> idx
      | Some nd \<Rightarrow> idx(h \<mapsto> nd\<lparr>inMainChain := flag\<rparr>))"

text \<open>
  Modelled from the spec: the reorganization of 4.4.  The entries of the old chain
  strictly above the common ancestor are demoted, tip first; then the entries of
  the new path are promoted, ancestor first.
\<close>

definition reorganizeChain :: "blockIndex \<Rightarrow> Hash \<Rightarrow> Hash \<Rightarrow> Hash \<Rightarrow> blockIndex" where
  "reorganizeChain idx fork old new =
     (let detach = takeWhile (\<lambda>h. h \<noteq> fork) (chainOf idx old);
          attach = rev (takeWhile (\<lambda>h. h \<noteq> fork) (chainOf idx new))
      in fold (setMainChain True) attach (fold (setMainChain False) detach idx))"

text \<open>
  Modelled from the spec: \<open>maybeAcceptBlock\<close> (absent, see above), section 4.4.  The
  entry of the new block has its parent's height plus one and its parent's
  cumulative work plus the block's own work; the work of a block is the parameter
  \<open>calcWork\<close>.
  \<^item> Unknown parent: the missing-parent rule error, nothing inserted.
  \<^item> The parent is the best-chain tip: the block extends the best chain, fork length 0.
  \<^item> Otherwise, cumulative work not exceeding the tip's: a side-chain entry, and the
    fork length is the distance of the new entry from the common ancestor.
  \<^item> Otherwise a reorganization, after which the block is the best-chain tip.
  For the fork length returned after a reorganization the specification has two
  readings (the formula of 4.4 and the glossary), and the documentation of
  \<open>ProcessBlock\<close> in process.go has a third: "In the case it either extended the best
  chain or is now the tip of the best chain due to causing a reorganize, the fork
  length will be 0."  The source decides: the model returns 0.
\<close>

definition specMaybeAcceptBlock ::
  "(BlockHeader \<Rightarrow> nat) \<Rightarrow> ('ts, 'cp) BlockChain \<Rightarrow> Block \<Rightarrow> BehaviorFlags \<Rightarrow>
     (int \<times> error option) \<times> ('ts, 'cp) BlockChain" where
  "specMaybeAcceptBlock calcWork b block flags =
     (let hash = blockHash block;
          header = Header (msgBlock block);
          prevHash = PrevBlock header
      in
      case index b prevHash of
        None \<Rightarrow>
          ((0, Some (ruleError ErrMissingParent
                       (''previous block '' @ HashString prevHash @ '' is not known''))), b)
      | Some prevNode \<Rightarrow>
         (let node = \<lparr>parent = prevHash, height = height prevNode + 1,
                      workSum = workSum prevNode + calcWork header, inMainChain = False\<rparr>
          in
          if prevHash = bestChainTip b then
            ((0, None),
             b\<lparr>index := insertNode (index b) hash (node\<lparr>inMainChain := True\<rparr>),
               bestChainTip := hash\<rparr>)
          else
           (let idx = insertNode (index b) hash node in
            case idx (bestChainTip b) of
              None \<Rightarrow> ((0, Some (AssertError ''best chain tip is not in the block index'')), b)
            | Some tipNode \<Rightarrow>
               (case commonAncestor idx hash (bestChainTip b) of
                  None \<Rightarrow> ((0, Some (AssertError ''no common ancestor with the best chain'')), b)
                | Some fork \<Rightarrow>
                    if workSum node \<le> workSum tipNode then
                      ((height node - (case idx fork of None \<Rightarrow> 0 | Some f \<Rightarrow> height f), None),
                       b\<lparr>index := idx\<rparr>)
                    else
                      ((0, None),
                       b\<lparr>index := reorganizeChain idx fork (bestChainTip b) hash,
                         bestChainTip := hash\<rparr>)))))"

definition specCollaborators ::
  "(blockNode \<Rightarrow> bool) \<Rightarrow> (Block \<Rightarrow> bool) \<Rightarrow> (BlockHeader \<Rightarrow> nat) \<Rightarrow>
     (int, Params) collaborators" where
  "specCollaborators thresholdMet treasuryRulesOK calcWork =
     \<lparr>checkBlockSanityContextFree = specCheckBlockSanityContextFree,
      isTreasuryAgendaActiveByHash = specIsTreasuryAgendaActiveByHash thresholdMet,
      checkBlockSanityContextual = specCheckBlockSanityContextual treasuryRulesOK,
      maybeAcceptBlock = specMaybeAcceptBlock calcWork\<rparr>"



subsection \<open>A chain with a side branch\<close>

text \<open>
  The scenario of section 8 of the specification: the best chain A1, A2, A3 and the
  side branch B1, B2 on top of A1.  Every block counts one unit of work, the
  treasury agenda is active from height 2 on, and a block obeys the treasury rules
  when its timestamp is even.  \<open>mkHash n\<close> is the 32-byte hash that ends in \<open>n\<close>.
\<close>

definition mkHash :: "byte \<Rightarrow> Hash" where
  "mkHash n = replicate 31 0 @ [n]"

abbreviation zeroHash :: Hash where "zeroHash \<equiv> mkHash 0"
abbreviation hashA1 :: Hash where "hashA1 \<equiv> mkHash 0xA1"
abbreviation hashA2 :: Hash where "hashA2 \<equiv> mkHash 0xA2"
abbreviation hashA3 :: Hash where "hashA3 \<equiv> mkHash 0xA3"
abbreviation hashA4 :: Hash where "hashA4 \<equiv> mkHash 0xA4"
abbreviation hashB1 :: Hash where "hashB1 \<equiv> mkHash 0xB1"
abbreviation hashB2 :: Hash where "hashB2 \<equiv> mkHash 0xB2"
abbreviation hashB3 :: Hash where "hashB3 \<equiv> mkHash 0xB3"
abbreviation hashC1 :: Hash where "hashC1 \<equiv> mkHash 0xC1"

definition testIndex :: blockIndex where
  "testIndex =
     [hashA1 \<mapsto> \<lparr>parent = zeroHash, height = 0, workSum = 1, inMainChain = True\<rparr>,
      hashA2 \<mapsto> \<lparr>parent = hashA1, height = 1, workSum = 2, inMainChain = True\<rparr>,
      hashA3 \<mapsto> \<lparr>parent = hashA2, height = 2, workSum = 3, inMainChain = True\<rparr>,
      hashB1 \<mapsto> \<lparr>parent = hashA1, height = 1, workSum = 2, inMainChain = False\<rparr>,
      hashB2 \<mapsto> \<lparr>parent = hashB1, height = 2, workSum = 3, inMainChain = False\<rparr>]"

definition testChain :: "(int, Params) BlockChain" where
  "testChain =
     \<lparr>index = testIndex, bestChainTip = hashA3, timeSource = 1000,
      chainParams = \<lparr>MaxTimeOffsetSeconds = 7200\<rparr>\<rparr>"

definition testBlock :: "Hash \<Rightarrow> Hash \<Rightarrow> int \<Rightarrow> int \<Rightarrow> Block" where
  "testBlock h prev ht ts =
     \<lparr>blockHash = h, blockHeight = ht,
      msgBlock = \<lparr>Header = \<lparr>PrevBlock = prev, HeaderBits = 0x1d00ffff, Timestamp = ts\<rparr>\<rparr>\<rparr>"

definition testCalcWork :: "BlockHeader \<Rightarrow> nat" where
  "testCalcWork hdr = 1"

definition testCollaborators :: "(int, Params) collaborators" where
  "testCollaborators =
     specCollaborators (\<lambda>n. 2 \<le> height n)
       (\<lambda>blk. even (Timestamp (Header (msgBlock blk)))) testCalcWork"

definition nodeB3 :: blockNode where
  "nodeB3 = \<lparr>parent = hashB2, height = 3, workSum = 4, inMainChain = False\<rparr>"



text \<open>The entry of a block C1 on top of A1, a side chain of length 1.\<close>

definition nodeC1 :: blockNode where
  "nodeC1 = \<lparr>parent = hashA1, height = 1, workSum = 2, inMainChain = False\<rparr>"


section \<open>The RPC codec (package dcrjson)\<close>

text \<open>
  Modelled from the spec: \<open>EncodeConcatenatedHashes\<close>, \<open>DecodeConcatenatedHashes\<close>,
  \<open>EncodeConcatenatedVoteBits\<close> and \<open>DecodeConcatenatedVoteBits\<close> are called by the tests
  of the package (src/unnamed/part_000) and are not among the sources; neither are
  \<open>stake.VoteBits\<close> and the bound on its extended bits.  The definitions follow
  section 6 of the specification: hashes are "fixed-width raw bytes concatenated in
  order (no separators)", a vote-bits record is a length prefix, the 2-byte
  little-endian \<open>Bits\<close> and the \<open>ExtendedBits\<close>, and decoding fails on truncated input,
  on trailing bytes and on a length prefix below the 2 bytes of \<open>Bits\<close>.  Where the
  words of the specification and the byte vectors of the tests disagree, the tests,
  which are source, decide: in \<open>TestEncodeConcatenatedVoteBits\<close> every record starts
  with one length byte that counts the bytes after it (\<open>0x02, 0x00, 0x00\<close> for
  \<open>{Bits: 0, ExtendedBits: []}\<close>, then \<open>0x03\<close> opens the next record).
  The bound on \<open>ExtendedBits\<close> is \<open>MaxSingleBytePushLength - 2\<close> with
  \<open>MaxSingleBytePushLength = 75\<close>, the longest data push a single-byte opcode carries;
  the tests fix only that 5 bytes are accepted and 74 are refused.
\<close>

datatype codecError =
    ErrHashLength
  | ErrHexEncoding
  | ErrExtendedBitsTooLong
  | ErrShortRead
  | ErrBadRecordLength

definition EncodeConcatenatedHashes :: "Hash list \<Rightarrow> codecError + string" where
  "EncodeConcatenatedHashes hashSlice =
     (if list_all validHash hashSlice then Inr (EncodeToString (concat hashSlice))
      else Inl ErrHashLength)"

primrec splitHashes :: "nat \<Rightarrow> byte list \<Rightarrow> Hash list" where
  "splitHashes 0 bs = []"
| "splitHashes (Suc k) bs = take HashSize bs # splitHashes k (drop HashSize bs)"

definition DecodeConcatenatedHashes :: "string \<Rightarrow> codecError + Hash list" where
  "DecodeConcatenatedHashes hashes =
     (let numHashes = length hashes div (2 * HashSize) in
      if numHashes * 2 * HashSize \<noteq> length hashes then Inl ErrHashLength
      else
        case DecodeString hashes of
          None \<Rightarrow> Inl ErrHexEncoding
        | Some bs \<Rightarrow> Inr (splitHashes numHashes bs))"

record VoteBits =
  Bits :: "16 word"
  ExtendedBits :: "byte list"

definition MaxSingleBytePushLength :: nat where
  "MaxSingleBytePushLength = 75"

text \<open>One record: the length byte, \<open>Bits\<close> low byte first, the extended bits.\<close>

definition voteBitsBytes :: "VoteBits \<Rightarrow> byte list" where
  "voteBitsBytes vb =
     of_nat (2 + length (ExtendedBits vb)) #
     ucast (Bits vb) # ucast (drop_bit 8 (Bits vb)) # ExtendedBits vb"

definition EncodeConcatenatedVoteBits :: "VoteBits list \<Rightarrow> codecError + string" where
  "EncodeConcatenatedVoteBits voteBitsSlice =
     (if list_ex (\<lambda>vb. MaxSingleBytePushLength - 2 < length (ExtendedBits vb)) voteBitsSlice
      then Inl ErrExtendedBitsTooLong
      else Inr (EncodeToString (concat (map voteBitsBytes voteBitsSlice))))"

text \<open>The records the encoder accepts.\<close>

definition validVoteBits :: "VoteBits \<Rightarrow> bool" where
  "validVoteBits vb = (length (ExtendedBits vb) \<le> MaxSingleBytePushLength - 2)"

fun readVoteBits :: "byte list \<Rightarrow> codecError + VoteBits list" where
  "readVoteBits [] = Inr []"
| "readVoteBits (n # rest) =
     (if unat n < 2 then Inl ErrBadRecordLength
      else if length rest < unat n then Inl ErrShortRead
      else
        case readVoteBits (drop (unat n) rest) of
          Inl e \<Rightarrow> Inl e
        | Inr vbs \<Rightarrow>
            Inr (\<lparr>Bits = or (ucast (rest ! 0)) (push_bit 8 (ucast (rest ! 1))),
                  ExtendedBits = take (unat n - 2) (drop 2 rest)\<rparr> # vbs))"

definition DecodeConcatenatedVoteBits :: "string \<Rightarrow> codecError + VoteBits list" where
  "DecodeConcatenatedVoteBits voteBitsString =
     (case DecodeString voteBitsString of
        None \<Rightarrow> Inl ErrHexEncoding
      | Some asBytes \<Rightarrow> readVoteBits asBytes)"

text \<open>
  The specification words the vote-bits format with a length prefix of two bytes,
  little-endian, that counts the whole record.  \<open>claimedVoteBitsBytes\<close> is that
  reading, for comparison with \<open>voteBitsBytes\<close>.
\<close>

definition claimedVoteBitsBytes :: "VoteBits \<Rightarrow> byte list" where
  "claimedVoteBitsBytes vb =
     of_nat ((2 + length (ExtendedBits vb)) mod 256) #
     of_nat ((2 + length (ExtendedBits vb)) div 256) #
     ucast (Bits vb) # ucast (drop_bit 8 (Bits vb)) # ExtendedBits vb"

text \<open>
  The byte vectors of the tests in src/unnamed/part_000: the first two hashes of
  \<open>TestEncodeConcatenatedHashes\<close>, the records and the bytes of
  \<open>TestEncodeConcatenatedVoteBits\<close>, the bytes of \<open>TestDecodeConcatenatedVoteBits\<close>.
\<close>

definition testHash1 :: Hash where
  "testHash1 =
     [0x80, 0xd9, 0x21, 0x2b, 0xf4, 0xce, 0xb0, 0x66,
      0xde, 0xd2, 0x86, 0x6b, 0x39, 0xd4, 0xed, 0x89,
      0xe0, 0xab, 0x60, 0xf3, 0x35, 0xc1, 0x1d, 0xf8,
      0xe7, 0xbf, 0x85, 0xd9, 0xc3, 0x5c, 0x8e, 0x29]"

definition testHash2 :: Hash where
  "testHash2 =
     [0xb9, 0x26, 0xd1, 0x87, 0x0d, 0x6f, 0x88, 0x76,
      0x0a, 0x8b, 0x10, 0xdb, 0x0d, 0x44, 0x39, 0xe5,
      0xcd, 0x74, 0xf3, 0x82, 0x7f, 0xd4, 0xb6, 0x82,
      0x74, 0x43, 0x00, 0x00, 0x00, 0x00, 0x00, 0x00]"

definition testVbs :: "VoteBits list" where
  "testVbs =
     [\<lparr>Bits = 0, ExtendedBits = []\<rparr>,
      \<lparr>Bits = 0, ExtendedBits = [0x00]\<rparr>,
      \<lparr>Bits = 0x1223, ExtendedBits = [0x01, 0x02, 0x03, 0x04]\<rparr>,
      \<lparr>Bits = 0xaaaa, ExtendedBits = [0x01, 0x02, 0x03, 0x04, 0x05]\<rparr>]"

definition expectedEncoded :: "byte list" where
  "expectedEncoded =
     [0x02, 0x00, 0x00, 0x03,
      0x00, 0x00, 0x00, 0x06,
      0x23, 0x12, 0x01, 0x02,
      0x03, 0x04, 0x07, 0xaa,
      0xaa, 0x01, 0x02, 0x03,
      0x04, 0x05]"

definition encodedBytes :: "byte list" where
  "encodedBytes =
     [0x03, 0x00, 0x00, 0x00,
      0x06, 0x23, 0x12, 0x01,
      0x02, 0x03, 0x04, 0x07,
      0xaa, 0xaa, 0x01, 0x02,
      0x03, 0x04, 0x05]"


section \<open>Properties of block processing\<close>

subsection \<open>The scenario\<close>

lemma mkHash_eq [simp]: "mkHash a = mkHash b \<longleftrightarrow> a = b"
  by (simp add: mkHash_def)

lemma validHash_mkHash: "validHash (mkHash n)"
  by (simp add: validHash_def mkHash_def HashSize_def)

lemma ancestry_numeral:
  "ancestry idx (numeral k) h =
     (case idx h of
        None \<Rightarrow> []
      | Some nd \<Rightarrow> h # ancestry idx (pred_numeral k) (parent nd))"
  by (simp add: numeral_eq_Suc)

lemma testIndex_lookup:
  "testIndex hashA1 = Some \<lparr>parent = zeroHash, height = 0, workSum = 1, inMainChain = True\<rparr>"
  "testIndex hashA2 = Some \<lparr>parent = hashA1, height = 1, workSum = 2, inMainChain = True\<rparr>"
  "testIndex hashA3 = Some \<lparr>parent = hashA2, height = 2, workSum = 3, inMainChain = True\<rparr>"
  "testIndex hashB1 = Some \<lparr>parent = hashA1, height = 1, workSum = 2, inMainChain = False\<rparr>"
  "testIndex hashB2 = Some \<lparr>parent = hashB1, height = 2, workSum = 3, inMainChain = False\<rparr>"
  "testIndex hashB3 = None"
  "testIndex hashA4 = None"
  "testIndex hashC1 = None"
  "testIndex zeroHash = None"
  by (simp_all add: testIndex_def)

lemma chainOf_scenario:
  "chainOf (testIndex(hashB3 \<mapsto> nodeB3)) hashB3 = [hashB3, hashB2, hashB1, hashA1]"
  "chainOf (testIndex(hashB3 \<mapsto> nodeB3)) hashA3 = [hashA3, hashA2, hashA1]"
  by (simp_all add: chainOf_def testIndex_lookup nodeB3_def ancestry_numeral)

lemma commonAncestor_scenario:
  "commonAncestor (testIndex(hashB3 \<mapsto> nodeB3)) hashB3 hashA3 = Some hashA1"
  by (simp add: commonAncestor_def chainOf_scenario)

lemma setMainChain_apply:
  "setMainChain flag h idx h' =
     (if h' = h then map_option (\<lambda>nd. nd\<lparr>inMainChain := flag\<rparr>) (idx h) else idx h')"
  by (simp add: setMainChain_def split: option.splits)

lemma reorganizeChain_scenario:
  "reorganizeChain (testIndex(hashB3 \<mapsto> nodeB3)) hashA1 hashA3 hashB3 =
     setMainChain True hashB3 (setMainChain True hashB2 (setMainChain True hashB1
       (setMainChain False hashA2 (setMainChain False hashA3 (testIndex(hashB3 \<mapsto> nodeB3))))))"
  by (simp add: reorganizeChain_def chainOf_scenario)

lemma reorganizeChain_scenario_lookup:
  "map (reorganizeChain (testIndex(hashB3 \<mapsto> nodeB3)) hashA1 hashA3 hashB3)
     [hashA1, hashA2, hashA3, hashB1, hashB2, hashB3] =
     [Some \<lparr>parent = zeroHash, height = 0, workSum = 1, inMainChain = True\<rparr>,
      Some \<lparr>parent = hashA1, height = 1, workSum = 2, inMainChain = False\<rparr>,
      Some \<lparr>parent = hashA2, height = 2, workSum = 3, inMainChain = False\<rparr>,
      Some \<lparr>parent = hashA1, height = 1, workSum = 2, inMainChain = True\<rparr>,
      Some \<lparr>parent = hashB1, height = 2, workSum = 3, inMainChain = True\<rparr>,
      Some \<lparr>parent = hashB2, height = 3, workSum = 4, inMainChain = True\<rparr>]"
  by (simp add: reorganizeChain_scenario setMainChain_apply testIndex_lookup) (simp add: nodeB3_def)


lemma HaveBlock_testChain:
  "HaveBlock (index testChain) hashA1" "HaveBlock (index testChain) hashA2"
  "HaveBlock (index testChain) hashA3" "HaveBlock (index testChain) hashB1"
  "HaveBlock (index testChain) hashB2" "\<not> HaveBlock (index testChain) hashB3"
  "\<not> HaveBlock (index testChain) hashA4" "\<not> HaveBlock (index testChain) hashC1"
  "\<not> HaveBlock (index testChain) zeroHash"
  by (simp_all add: HaveBlock_def testChain_def testIndex_lookup)

lemma testBlock_sel:
  "blockHash (testBlock h prev ht ts) = h"
  "PrevBlock (Header (msgBlock (testBlock h prev ht ts))) = prev"
  "Timestamp (Header (msgBlock (testBlock h prev ht ts))) = ts"
  by (simp_all add: testBlock_def)

lemma testChain_sel:
  "index testChain = testIndex" "bestChainTip testChain = hashA3"
  "timeSource testChain = 1000" "chainParams testChain = \<lparr>MaxTimeOffsetSeconds = 7200\<rparr>"
  by (simp_all add: testChain_def)

lemma testCollaborators_sel:
  "checkBlockSanityContextFree testCollaborators = specCheckBlockSanityContextFree"
  "isTreasuryAgendaActiveByHash testCollaborators =
     specIsTreasuryAgendaActiveByHash (\<lambda>n. 2 \<le> height n)"
  "checkBlockSanityContextual testCollaborators =
     specCheckBlockSanityContextual (\<lambda>blk. even (Timestamp (Header (msgBlock blk))))"
  "maybeAcceptBlock testCollaborators = specMaybeAcceptBlock testCalcWork"
  by (simp_all add: testCollaborators_def specCollaborators_def)

lemma test_sanity:
  "checkBlockSanityContextFree testCollaborators (testBlock h prev ht 900)
     (timeSource testChain) flags (chainParams testChain) = None"
  "checkBlockSanityContextFree testCollaborators (testBlock h prev ht 901)
     (timeSource testChain) flags (chainParams testChain) = None"
  "checkBlockSanityContextFree testCollaborators (testBlock h prev ht 9000)
     (timeSource testChain) flags (chainParams testChain) =
     Some (ruleError ErrTimeTooNew ''block timestamp is too far in the future'')"
  "checkBlockSanityContextual testCollaborators (testBlock h prev ht 900)
     (timeSource testChain) flags (chainParams testChain) v = None"
  "checkBlockSanityContextual testCollaborators (testBlock h prev ht 901)
     (timeSource testChain) flags (chainParams testChain) True =
     Some (ruleError (ErrOtherRule 0) ''block violates the treasury rules'')"
  by (simp_all add: testCollaborators_sel testBlock_sel testChain_sel
        specCheckBlockSanityContextFree_def specCheckBlockSanityContextual_def)

lemma test_agenda:
  "isTreasuryAgendaActiveByHash testCollaborators testChain hashA3 = (True, None)"
  "isTreasuryAgendaActiveByHash testCollaborators testChain hashB2 = (True, None)"
  "isTreasuryAgendaActiveByHash testCollaborators testChain hashA1 = (False, None)"
  by (simp_all add: testCollaborators_sel specIsTreasuryAgendaActiveByHash_def testChain_sel
        testIndex_lookup)


lemma chainOf_testIndex:
  "chainOf testIndex hashA3 = [hashA3, hashA2, hashA1]"
  "chainOf testIndex hashB2 = [hashB2, hashB1, hashA1]"
  by (simp_all add: chainOf_def testIndex_lookup ancestry_numeral)

lemma HaveBlock_testIndex:
  "HaveBlock testIndex hashA1" "HaveBlock testIndex hashA2"
  "HaveBlock testIndex hashA3" "HaveBlock testIndex hashB1"
  "HaveBlock testIndex hashB2" "\<not> HaveBlock testIndex hashB3"
  "\<not> HaveBlock testIndex hashA4" "\<not> HaveBlock testIndex hashC1"
  "\<not> HaveBlock testIndex zeroHash"
  by (simp_all add: HaveBlock_def testIndex_lookup)

lemma test_sanity_at:
  "checkBlockSanityContextFree testCollaborators (testBlock h prev ht 900)
     1000 flags \<lparr>MaxTimeOffsetSeconds = 7200\<rparr> = None"
  "checkBlockSanityContextual testCollaborators (testBlock h prev ht 900)
     1000 flags \<lparr>MaxTimeOffsetSeconds = 7200\<rparr> v = None"
  using test_sanity(1,4) [of h prev ht flags] by (simp_all add: testChain_sel)

lemma insertNode_scenario:
  "insertNode testIndex hashB3
     \<lparr>parent = hashB2, height = 3, workSum = 4, inMainChain = False\<rparr> =
     testIndex(hashB3 \<mapsto> nodeB3)"
  by (simp add: insertNode_def HaveBlock_testIndex nodeB3_def)

lemmas scenario_facts =
  testBlock_sel testChain_sel HaveBlock_testIndex test_sanity_at test_agenda testIndex_lookup
  testCalcWork_def insertNode_scenario commonAncestor_scenario

subsection \<open>The exits of ProcessBlock\<close>

text \<open>
  One lemma for each of the six ways \<open>ProcessBlock\<close> returns, with the whole outcome,
  and a case rule that covers every call.
\<close>

lemma ProcessBlock_duplicate_outcome:
  assumes "HaveBlock (index b) (blockHash block)"
  shows "ProcessBlock c b block flags =
     \<lparr>forkLen = 0,
      err = Some (ruleError ErrDuplicateBlock
                    (''already have block '' @ HashString (blockHash block))),
      chain = b,
      calls = [CallHaveBlock (blockHash block)]\<rparr>"
  using assms by (simp add: ProcessBlock_def Let_def)

lemma ProcessBlock_sanity_outcome:
  assumes "\<not> HaveBlock (index b) (blockHash block)"
    and "checkBlockSanityContextFree c block (timeSource b) flags (chainParams b) = Some e"
  shows "ProcessBlock c b block flags =
     \<lparr>forkLen = 0, err = Some e, chain = b,
      calls = [CallHaveBlock (blockHash block), CallCheckBlockSanityContextFree]\<rparr>"
  using assms by (simp add: ProcessBlock_def Let_def)

lemma ProcessBlock_orphan_outcome:
  assumes "\<not> HaveBlock (index b) (blockHash block)"
    and "checkBlockSanityContextFree c block (timeSource b) flags (chainParams b) = None"
    and "\<not> HaveBlock (index b) (PrevBlock (Header (msgBlock block)))"
  shows "ProcessBlock c b block flags =
     \<lparr>forkLen = 0,
      err = Some (ruleError ErrMissingParent
                    (''previous block '' @ HashString (PrevBlock (Header (msgBlock block)))
                       @ '' is not known'')),
      chain = b,
      calls = [CallHaveBlock (blockHash block), CallCheckBlockSanityContextFree,
               CallHaveBlock (PrevBlock (Header (msgBlock block)))]\<rparr>"
  using assms by (simp add: ProcessBlock_def Let_def)

lemma ProcessBlock_agenda_outcome:
  assumes "\<not> HaveBlock (index b) (blockHash block)"
    and "checkBlockSanityContextFree c block (timeSource b) flags (chainParams b) = None"
    and "HaveBlock (index b) (PrevBlock (Header (msgBlock block)))"
    and "isTreasuryAgendaActiveByHash c b (PrevBlock (Header (msgBlock block))) = (v, Some e)"
  shows "ProcessBlock c b block flags =
     \<lparr>forkLen = 0, err = Some e, chain = b,
      calls = [CallHaveBlock (blockHash block), CallCheckBlockSanityContextFree,
               CallHaveBlock (PrevBlock (Header (msgBlock block))),
               CallIsTreasuryAgendaActiveByHash (PrevBlock (Header (msgBlock block)))]\<rparr>"
  using assms by (simp add: ProcessBlock_def Let_def)

lemma ProcessBlock_contextual_outcome:
  assumes "\<not> HaveBlock (index b) (blockHash block)"
    and "checkBlockSanityContextFree c block (timeSource b) flags (chainParams b) = None"
    and "HaveBlock (index b) (PrevBlock (Header (msgBlock block)))"
    and "isTreasuryAgendaActiveByHash c b (PrevBlock (Header (msgBlock block))) = (v, None)"
    and "checkBlockSanityContextual c block (timeSource b) flags (chainParams b) v = Some e"
  shows "ProcessBlock c b block flags =
     \<lparr>forkLen = 0, err = Some e, chain = b,
      calls = [CallHaveBlock (blockHash block), CallCheckBlockSanityContextFree,
               CallHaveBlock (PrevBlock (Header (msgBlock block))),
               CallIsTreasuryAgendaActiveByHash (PrevBlock (Header (msgBlock block))),
               CallCheckBlockSanityContextual v]\<rparr>"
  using assms by (simp add: ProcessBlock_def Let_def)

lemma ProcessBlock_accept_outcome:
  assumes "\<not> HaveBlock (index b) (blockHash block)"
    and "checkBlockSanityContextFree c block (timeSource b) flags (chainParams b) = None"
    and "HaveBlock (index b) (PrevBlock (Header (msgBlock block)))"
    and "isTreasuryAgendaActiveByHash c b (PrevBlock (Header (msgBlock block))) = (v, None)"
    and "checkBlockSanityContextual c block (timeSource b) flags (chainParams b) v = None"
    and "maybeAcceptBlock c b block flags = ((fl, e), b')"
  shows "ProcessBlock c b block flags =
     \<lparr>forkLen = (if e = None then fl else 0), err = e, chain = b',
      calls = [CallHaveBlock (blockHash block), CallCheckBlockSanityContextFree,
               CallHaveBlock (PrevBlock (Header (msgBlock block))),
               CallIsTreasuryAgendaActiveByHash (PrevBlock (Header (msgBlock block))),
               CallCheckBlockSanityContextual v, CallMaybeAcceptBlock]\<rparr>"
  using assms by (cases e) (simp_all add: ProcessBlock_def Let_def)

lemma ProcessBlock_outcome_cases:
  obtains (duplicate) "HaveBlock (index b) (blockHash block)"
  | (sanity) e where "\<not> HaveBlock (index b) (blockHash block)"
      "checkBlockSanityContextFree c block (timeSource b) flags (chainParams b) = Some e"
  | (orphan) "\<not> HaveBlock (index b) (blockHash block)"
      "checkBlockSanityContextFree c block (timeSource b) flags (chainParams b) = None"
      "\<not> HaveBlock (index b) (PrevBlock (Header (msgBlock block)))"
  | (agenda) v e where "\<not> HaveBlock (index b) (blockHash block)"
      "checkBlockSanityContextFree c block (timeSource b) flags (chainParams b) = None"
      "HaveBlock (index b) (PrevBlock (Header (msgBlock block)))"
      "isTreasuryAgendaActiveByHash c b (PrevBlock (Header (msgBlock block))) = (v, Some e)"
  | (contextual) v e where "\<not> HaveBlock (index b) (blockHash block)"
      "checkBlockSanityContextFree c block (timeSource b) flags (chainParams b) = None"
      "HaveBlock (index b) (PrevBlock (Header (msgBlock block)))"
      "isTreasuryAgendaActiveByHash c b (PrevBlock (Header (msgBlock block))) = (v, None)"
      "checkBlockSanityContextual c block (timeSource b) flags (chainParams b) v = Some e"
  | (accept) v fl e b' where "\<not> HaveBlock (index b) (blockHash block)"
      "checkBlockSanityContextFree c block (timeSource b) flags (chainParams b) = None"
      "HaveBlock (index b) (PrevBlock (Header (msgBlock block)))"
      "isTreasuryAgendaActiveByHash c b (PrevBlock (Header (msgBlock block))) = (v, None)"
      "checkBlockSanityContextual c block (timeSource b) flags (chainParams b) v = None"
      "maybeAcceptBlock c b block flags = ((fl, e), b')"
proof (cases "HaveBlock (index b) (blockHash block)")
  case True
  then show ?thesis by (rule duplicate)
next
  case new: False
  show ?thesis
  proof (cases "checkBlockSanityContextFree c block (timeSource b) flags (chainParams b)")
    case (Some e)
    with new show ?thesis by (rule sanity)
  next
    case cf: None
    show ?thesis
    proof (cases "HaveBlock (index b) (PrevBlock (Header (msgBlock block)))")
      case False
      with new cf show ?thesis by (rule orphan)
    next
      case par: True
      obtain v ae where ag:
        "isTreasuryAgendaActiveByHash c b (PrevBlock (Header (msgBlock block))) = (v, ae)"
        by (cases "isTreasuryAgendaActiveByHash c b (PrevBlock (Header (msgBlock block)))")
      show ?thesis
      proof (cases ae)
        case (Some e)
        with new cf par ag show ?thesis by (auto intro: agenda)
      next
        case None
        with ag have ag': "isTreasuryAgendaActiveByHash c b (PrevBlock (Header (msgBlock block))) = (v, None)"
          by simp
        show ?thesis
        proof (cases "checkBlockSanityContextual c block (timeSource b) flags (chainParams b) v")
          case (Some e)
          with new cf par ag' show ?thesis by (rule contextual)
        next
          case ctx: None
          obtain fl e b' where "maybeAcceptBlock c b block flags = ((fl, e), b')"
            by (metis surj_pair)
          with new cf par ag' ctx show ?thesis by (rule accept)
        qed
      qed
    qed
  qed
qed


lemmas ProcessBlock_outcomes =
  ProcessBlock_duplicate_outcome ProcessBlock_sanity_outcome ProcessBlock_orphan_outcome
  ProcessBlock_agenda_outcome ProcessBlock_contextual_outcome ProcessBlock_accept_outcome

subsection \<open>The chain acceptor of the specification\<close>

text \<open>The acceptor of the specification changes nothing when it returns an error.\<close>

lemma specMaybeAcceptBlock_error_atomic:
  "specMaybeAcceptBlock calcWork b block flags = ((fl, Some e), b') \<Longrightarrow> b' = b"
  by (auto simp: specMaybeAcceptBlock_def Let_def split: option.splits if_splits)

lemma specMaybeAcceptBlock_extend:
  assumes "index b (PrevBlock (Header (msgBlock block))) = Some prevNode"
    and "PrevBlock (Header (msgBlock block)) = bestChainTip b"
  shows "specMaybeAcceptBlock calcWork b block flags =
     ((0, None),
      b\<lparr>index := insertNode (index b) (blockHash block)
                   \<lparr>parent = PrevBlock (Header (msgBlock block)),
                    height = height prevNode + 1,
                    workSum = workSum prevNode + calcWork (Header (msgBlock block)),
                    inMainChain = True\<rparr>,
        bestChainTip := blockHash block\<rparr>)"
  using assms by (simp add: specMaybeAcceptBlock_def Let_def)

lemma specMaybeAcceptBlock_reorganize:
  assumes "index b (PrevBlock (Header (msgBlock block))) = Some prevNode"
    and "PrevBlock (Header (msgBlock block)) \<noteq> bestChainTip b"
    and "idx = insertNode (index b) (blockHash block)
                 \<lparr>parent = PrevBlock (Header (msgBlock block)),
                  height = height prevNode + 1,
                  workSum = workSum prevNode + calcWork (Header (msgBlock block)),
                  inMainChain = False\<rparr>"
    and "idx (bestChainTip b) = Some tipNode"
    and "commonAncestor idx (blockHash block) (bestChainTip b) = Some fork"
    and "workSum tipNode < workSum prevNode + calcWork (Header (msgBlock block))"
  shows "specMaybeAcceptBlock calcWork b block flags =
     ((0, None),
      b\<lparr>index := reorganizeChain idx fork (bestChainTip b) (blockHash block),
        bestChainTip := blockHash block\<rparr>)"
  using assms by (simp add: specMaybeAcceptBlock_def Let_def)

lemma ProcessBlock_reorganize_scenario:
  "ProcessBlock testCollaborators testChain (testBlock hashB3 hashB2 3 900) BFNone =
     \<lparr>forkLen = 0, err = None,
      chain = testChain
        \<lparr>index := reorganizeChain (testIndex(hashB3 \<mapsto> nodeB3)) hashA1 hashA3 hashB3,
         bestChainTip := hashB3\<rparr>,
      calls = [CallHaveBlock hashB3, CallCheckBlockSanityContextFree, CallHaveBlock hashB2,
               CallIsTreasuryAgendaActiveByHash hashB2, CallCheckBlockSanityContextual True,
               CallMaybeAcceptBlock]\<rparr>"
proof -
  have "specMaybeAcceptBlock testCalcWork testChain (testBlock hashB3 hashB2 3 900) BFNone =
     ((0, None),
      testChain
        \<lparr>index := reorganizeChain (testIndex(hashB3 \<mapsto> nodeB3)) hashA1
                    (bestChainTip testChain) (blockHash (testBlock hashB3 hashB2 3 900)),
         bestChainTip := blockHash (testBlock hashB3 hashB2 3 900)\<rparr>)"
    by (rule specMaybeAcceptBlock_reorganize
          [where prevNode = "\<lparr>parent = hashB1, height = 2, workSum = 3, inMainChain = False\<rparr>"
             and tipNode = "\<lparr>parent = hashA2, height = 2, workSum = 3, inMainChain = True\<rparr>"])
       (simp_all add: scenario_facts)
  then have "maybeAcceptBlock testCollaborators testChain (testBlock hashB3 hashB2 3 900) BFNone =
     ((0, None),
      testChain
        \<lparr>index := reorganizeChain (testIndex(hashB3 \<mapsto> nodeB3)) hashA1 hashA3 hashB3,
         bestChainTip := hashB3\<rparr>)"
    by (simp add: testCollaborators_sel testBlock_sel testChain_sel)
  from ProcessBlock_accept_outcome [where v = True, OF _ _ _ _ _ this]
  show ?thesis
    by (simp add: scenario_facts)
qed

lemma specMaybeAcceptBlock_side:
  assumes "index b (PrevBlock (Header (msgBlock block))) = Some prevNode"
    and "PrevBlock (Header (msgBlock block)) \<noteq> bestChainTip b"
    and "idx = insertNode (index b) (blockHash block)
                 \<lparr>parent = PrevBlock (Header (msgBlock block)),
                  height = height prevNode + 1,
                  workSum = workSum prevNode + calcWork (Header (msgBlock block)),
                  inMainChain = False\<rparr>"
    and "idx (bestChainTip b) = Some tipNode"
    and "commonAncestor idx (blockHash block) (bestChainTip b) = Some fork"
    and "idx fork = Some forkNode"
    and "workSum prevNode + calcWork (Header (msgBlock block)) \<le> workSum tipNode"
  shows "specMaybeAcceptBlock calcWork b block flags =
     ((height prevNode + 1 - height forkNode, None), b\<lparr>index := idx\<rparr>)"
  using assms by (simp add: specMaybeAcceptBlock_def Let_def)

lemma chainOf_side_scenario:
  "chainOf (testIndex(hashC1 \<mapsto> nodeC1)) hashC1 = [hashC1, hashA1]"
  "chainOf (testIndex(hashC1 \<mapsto> nodeC1)) hashA3 = [hashA3, hashA2, hashA1]"
  by (simp_all add: chainOf_def testIndex_lookup nodeC1_def ancestry_numeral)

lemma commonAncestor_side_scenario:
  "commonAncestor (testIndex(hashC1 \<mapsto> nodeC1)) hashC1 hashA3 = Some hashA1"
  by (simp add: commonAncestor_def chainOf_side_scenario)

lemma maybeAcceptBlock_side_scenario:
  "maybeAcceptBlock testCollaborators testChain (testBlock hashC1 hashA1 1 901) BFNone =
     ((1, None), testChain\<lparr>index := testIndex(hashC1 \<mapsto> nodeC1)\<rparr>)"
proof -
  have "specMaybeAcceptBlock testCalcWork testChain (testBlock hashC1 hashA1 1 901) BFNone =
     ((height \<lparr>parent = zeroHash, height = 0, workSum = 1, inMainChain = True\<rparr> + 1 -
         height \<lparr>parent = zeroHash, height = 0, workSum = 1, inMainChain = True\<rparr>, None),
      testChain\<lparr>index := testIndex(hashC1 \<mapsto> nodeC1)\<rparr>)"
    by (rule specMaybeAcceptBlock_side
          [where tipNode = "\<lparr>parent = hashA2, height = 2, workSum = 3, inMainChain = True\<rparr>"
             and fork = hashA1])
       (simp_all add: testBlock_sel testChain_sel testIndex_lookup HaveBlock_testIndex
          testCalcWork_def insertNode_def nodeC1_def commonAncestor_side_scenario [unfolded nodeC1_def]
          numeral_2_eq_2 [symmetric])
  then show ?thesis by (simp add: testCollaborators_sel)
qed

lemma test_sanity_odd:
  "checkBlockSanityContextFree testCollaborators (testBlock h prev ht 901)
     1000 flags \<lparr>MaxTimeOffsetSeconds = 7200\<rparr> = None"
  "checkBlockSanityContextual testCollaborators (testBlock h prev ht 901)
     1000 flags \<lparr>MaxTimeOffsetSeconds = 7200\<rparr> True =
     Some (ruleError (ErrOtherRule 0) ''block violates the treasury rules'')"
  "checkBlockSanityContextual testCollaborators (testBlock h prev ht 901)
     1000 flags \<lparr>MaxTimeOffsetSeconds = 7200\<rparr> False = None"
  by (simp_all add: testCollaborators_sel testBlock_sel
        specCheckBlockSanityContextFree_def specCheckBlockSanityContextual_def)



subsection \<open>The claims about ProcessBlock\<close>

text \<open>
  Claim C2.  A block whose hash is already in the block index, on the main chain or on
  a side chain, is rejected with the duplicate-block rule error: the fork length
  returned is 0, the chain is left as it was, and the only call made is the lookup
  of the hash, so neither sanity check has run.  The outcome is the same whatever
  the collaborators and the flags are.
\<close>

theorem ProcessBlock_rejects_duplicate:
  assumes "HaveBlock (index b) (blockHash block)"
  shows "forkLen (ProcessBlock c b block flags) = 0 \<and>
         err (ProcessBlock c b block flags) =
           Some (ruleError ErrDuplicateBlock
                   (''already have block '' @ HashString (blockHash block))) \<and>
         chain (ProcessBlock c b block flags) = b \<and>
         calls (ProcessBlock c b block flags) = [CallHaveBlock (blockHash block)] \<and>
         ProcessBlock c' b block flags' = ProcessBlock c b block flags"
  by (simp add: ProcessBlock_duplicate_outcome [OF assms])

theorem ProcessBlock_rejects_duplicate_witness:
  "HaveBlock (index testChain) (blockHash (testBlock hashA2 hashA1 1 900)) \<and>
   HaveBlock (index testChain) (blockHash (testBlock hashB1 hashA1 1 9000)) \<and>
   err (ProcessBlock testCollaborators testChain (testBlock hashA2 hashA1 1 900) BFNone) =
     Some (ruleError ErrDuplicateBlock (''already have block '' @ HashString hashA2)) \<and>
   chain (ProcessBlock testCollaborators testChain (testBlock hashA2 hashA1 1 900) BFNone) =
     testChain \<and>
   err (ProcessBlock testCollaborators testChain (testBlock hashB1 hashA1 1 9000) BFNoPoWCheck) =
     Some (ruleError ErrDuplicateBlock (''already have block '' @ HashString hashB1)) \<and>
   calls (ProcessBlock testCollaborators testChain (testBlock hashB1 hashA1 1 9000) BFNoPoWCheck) =
     [CallHaveBlock hashB1]"
proof -
  have a2: "HaveBlock (index testChain) (blockHash (testBlock hashA2 hashA1 1 900))"
    and b1: "HaveBlock (index testChain) (blockHash (testBlock hashB1 hashA1 1 9000))"
    by (simp_all add: testBlock_sel HaveBlock_testChain)
  from ProcessBlock_rejects_duplicate [OF a2, of testCollaborators BFNone]
    ProcessBlock_rejects_duplicate [OF b1, of testCollaborators BFNoPoWCheck] a2 b1
  show ?thesis by (simp add: testBlock_sel)
qed


text \<open>
  Claim C10.  Whenever \<open>ProcessBlock\<close> returns an error, whichever step it comes from,
  the fork length it returns is 0.
\<close>

theorem ProcessBlock_error_forkLen_zero:
  "err (ProcessBlock c b block flags) \<noteq> None \<Longrightarrow> forkLen (ProcessBlock c b block flags) = 0"
  by (cases rule: ProcessBlock_outcome_cases [where b = b and block = block and c = c and flags = flags])
     (auto simp: ProcessBlock_duplicate_outcome ProcessBlock_sanity_outcome
        ProcessBlock_orphan_outcome ProcessBlock_agenda_outcome
        ProcessBlock_contextual_outcome ProcessBlock_accept_outcome)


theorem ProcessBlock_error_forkLen_zero_witness:
  "err (ProcessBlock testCollaborators testChain (testBlock hashC1 hashB3 4 900) BFNone) \<noteq> None \<and>
   forkLen (ProcessBlock testCollaborators testChain (testBlock hashC1 hashB3 4 900) BFNone) = 0"
proof -
  have "err (ProcessBlock testCollaborators testChain (testBlock hashC1 hashB3 4 900) BFNone) \<noteq> None"
    by (simp add: ProcessBlock_orphan_outcome testBlock_sel HaveBlock_testChain test_sanity)
  with ProcessBlock_error_forkLen_zero [of testCollaborators testChain "testBlock hashC1 hashB3 4 900" BFNone]
  show ?thesis by simp
qed


text \<open>
  Claim C3, as amended.  A block that is not yet in the block index, that passes the
  context-free sanity check, and whose parent hash is absent from the index, is
  rejected with the missing-parent rule error; the chain, and with it the index, is
  unchanged, the block is not inserted, and \<open>maybeAcceptBlock\<close> is not called.
\<close>

theorem ProcessBlock_rejects_orphan:
  assumes "\<not> HaveBlock (index b) (blockHash block)"
    and "checkBlockSanityContextFree c block (timeSource b) flags (chainParams b) = None"
    and "\<not> HaveBlock (index b) (PrevBlock (Header (msgBlock block)))"
  shows "forkLen (ProcessBlock c b block flags) = 0 \<and>
         err (ProcessBlock c b block flags) =
           Some (ruleError ErrMissingParent
                   (''previous block '' @ HashString (PrevBlock (Header (msgBlock block)))
                      @ '' is not known'')) \<and>
         chain (ProcessBlock c b block flags) = b \<and>
         index (chain (ProcessBlock c b block flags)) = index b \<and>
         \<not> HaveBlock (index (chain (ProcessBlock c b block flags))) (blockHash block) \<and>
         CallMaybeAcceptBlock \<notin> set (calls (ProcessBlock c b block flags))"
  using assms by (simp add: ProcessBlock_orphan_outcome)

theorem ProcessBlock_rejects_orphan_witness:
  "\<not> HaveBlock (index testChain) (blockHash (testBlock hashC1 hashB3 4 900)) \<and>
   checkBlockSanityContextFree testCollaborators (testBlock hashC1 hashB3 4 900)
     (timeSource testChain) BFNone (chainParams testChain) = None \<and>
   \<not> HaveBlock (index testChain) (PrevBlock (Header (msgBlock (testBlock hashC1 hashB3 4 900)))) \<and>
   forkLen (ProcessBlock testCollaborators testChain (testBlock hashC1 hashB3 4 900) BFNone) = 0 \<and>
   err (ProcessBlock testCollaborators testChain (testBlock hashC1 hashB3 4 900) BFNone) =
     Some (ruleError ErrMissingParent (''previous block '' @ HashString hashB3 @ '' is not known'')) \<and>
   chain (ProcessBlock testCollaborators testChain (testBlock hashC1 hashB3 4 900) BFNone) = testChain"
proof -
  have 1: "\<not> HaveBlock (index testChain) (blockHash (testBlock hashC1 hashB3 4 900))"
    and 2: "checkBlockSanityContextFree testCollaborators (testBlock hashC1 hashB3 4 900)
              (timeSource testChain) BFNone (chainParams testChain) = None"
    and 3: "\<not> HaveBlock (index testChain) (PrevBlock (Header (msgBlock (testBlock hashC1 hashB3 4 900))))"
    by (simp_all add: testBlock_sel HaveBlock_testChain test_sanity)
  from ProcessBlock_rejects_orphan [OF 1 2 3] 1 2 3 show ?thesis
    by (simp add: testBlock_sel)
qed

text \<open>
  The claim without the two conditions fails.  A block whose parent is unknown and
  whose timestamp is too far in the future is rejected by the context-free sanity
  check, which runs first; and the first block of the chain, whose parent is not in
  the index either, is rejected as a duplicate.
\<close>

theorem orphan_rejected_for_other_reason:
  "\<not> HaveBlock (index testChain) (PrevBlock (Header (msgBlock (testBlock hashC1 hashB3 4 9000)))) \<and>
   err (ProcessBlock testCollaborators testChain (testBlock hashC1 hashB3 4 9000) BFNone) =
     Some (ruleError ErrTimeTooNew ''block timestamp is too far in the future'') \<and>
   err (ProcessBlock testCollaborators testChain (testBlock hashC1 hashB3 4 9000) BFNone) \<noteq>
     Some (ruleError ErrMissingParent (''previous block '' @ HashString hashB3 @ '' is not known'')) \<and>
   \<not> HaveBlock (index testChain) (PrevBlock (Header (msgBlock (testBlock hashA1 zeroHash 0 900)))) \<and>
   err (ProcessBlock testCollaborators testChain (testBlock hashA1 zeroHash 0 900) BFNone) =
     Some (ruleError ErrDuplicateBlock (''already have block '' @ HashString hashA1)) \<and>
   err (ProcessBlock testCollaborators testChain (testBlock hashA1 zeroHash 0 900) BFNone) \<noteq>
     Some (ruleError ErrMissingParent (''previous block '' @ HashString zeroHash @ '' is not known''))"
  by (simp add: ProcessBlock_sanity_outcome ProcessBlock_duplicate_outcome testBlock_sel
        HaveBlock_testChain test_sanity ruleError_def)



text \<open>
  Claim C4.  When the duplicate check, the context-free sanity check and the parent
  lookup pass and the agenda query for the parent hash returns no error, the error
  of \<open>ProcessBlock\<close> is that of \<open>checkBlockSanityContextual\<close> applied to the block with
  the answer of that query as its flag, and the error of \<open>maybeAcceptBlock\<close> when the
  check passes.  The agenda is consulted for the parent hash alone: two agenda
  queries that agree there give the same outcome, whatever they answer for the
  hash of the block itself.  The context-dependent check is consulted with the
  parent's flag alone: two checks that agree on that flag give the same outcome.
  When the agenda query fails or is not reached, the check does not run at all: the
  outcome is the same for every check.  In the sequence of calls the query for the
  parent hash comes immediately before the check that takes its answer.
\<close>

theorem ProcessBlock_agenda_from_parent:
  fixes c :: "('ts, 'cp) collaborators" and b :: "('ts, 'cp) BlockChain"
    and block :: Block and flags :: BehaviorFlags
  defines "r \<equiv> ProcessBlock c b block flags"
    and "prevHash \<equiv> PrevBlock (Header (msgBlock block))"
  defines "agenda \<equiv> isTreasuryAgendaActiveByHash c b prevHash"
  defines "reached \<equiv>
      \<not> HaveBlock (index b) (blockHash block) \<and>
      checkBlockSanityContextFree c block (timeSource b) flags (chainParams b) = None \<and>
      HaveBlock (index b) prevHash \<and> snd agenda = None"
  shows
  "(reached \<longrightarrow>
      err r =
        (case checkBlockSanityContextual c block (timeSource b) flags (chainParams b)
                (fst agenda) of
           Some e \<Rightarrow> Some e
         | None \<Rightarrow> snd (fst (maybeAcceptBlock c b block flags))) \<and>
      (checkBlockSanityContextual c block (timeSource b) flags (chainParams b)
         (fst agenda) \<noteq> None \<longrightarrow> forkLen r = 0 \<and> chain r = b)) \<and>
   (\<forall>f g. f b prevHash = g b prevHash \<longrightarrow>
      ProcessBlock (c\<lparr>isTreasuryAgendaActiveByHash := f\<rparr>) b block flags =
      ProcessBlock (c\<lparr>isTreasuryAgendaActiveByHash := g\<rparr>) b block flags) \<and>
   (\<forall>p q. p block (timeSource b) flags (chainParams b) (fst agenda) =
           q block (timeSource b) flags (chainParams b) (fst agenda) \<longrightarrow>
      ProcessBlock (c\<lparr>checkBlockSanityContextual := p\<rparr>) b block flags =
      ProcessBlock (c\<lparr>checkBlockSanityContextual := q\<rparr>) b block flags) \<and>
   (\<not> reached \<longrightarrow>
      (\<forall>p. ProcessBlock (c\<lparr>checkBlockSanityContextual := p\<rparr>) b block flags = r)) \<and>
   (\<forall>h. CallIsTreasuryAgendaActiveByHash h \<in> set (calls r) \<longrightarrow> h = prevHash) \<and>
   (\<forall>v. CallCheckBlockSanityContextual v \<in> set (calls r) \<longrightarrow>
        reached \<and> v = fst agenda \<and>
        (\<exists>post. calls r =
           [CallHaveBlock (blockHash block), CallCheckBlockSanityContextFree,
            CallHaveBlock prevHash, CallIsTreasuryAgendaActiveByHash prevHash,
            CallCheckBlockSanityContextual v] @ post))"
proof -
  have 1: "reached \<longrightarrow>
      err r =
        (case checkBlockSanityContextual c block (timeSource b) flags (chainParams b)
                (fst agenda) of
           Some e \<Rightarrow> Some e
         | None \<Rightarrow> snd (fst (maybeAcceptBlock c b block flags))) \<and>
      (checkBlockSanityContextual c block (timeSource b) flags (chainParams b)
         (fst agenda) \<noteq> None \<longrightarrow> forkLen r = 0 \<and> chain r = b)"
    unfolding r_def prevHash_def agenda_def reached_def
    by (cases rule: ProcessBlock_outcome_cases [where b = b and block = block and c = c and flags = flags])
       (auto simp: ProcessBlock_outcomes)
  have 2: "\<forall>f g. f b prevHash = g b prevHash \<longrightarrow>
      ProcessBlock (c\<lparr>isTreasuryAgendaActiveByHash := f\<rparr>) b block flags =
      ProcessBlock (c\<lparr>isTreasuryAgendaActiveByHash := g\<rparr>) b block flags"
    unfolding prevHash_def
    by (auto simp: ProcessBlock_def Let_def split: option.splits prod.splits)
  have 3: "\<forall>p q. p block (timeSource b) flags (chainParams b) (fst agenda) =
           q block (timeSource b) flags (chainParams b) (fst agenda) \<longrightarrow>
      ProcessBlock (c\<lparr>checkBlockSanityContextual := p\<rparr>) b block flags =
      ProcessBlock (c\<lparr>checkBlockSanityContextual := q\<rparr>) b block flags"
    unfolding prevHash_def agenda_def
    by (auto simp: ProcessBlock_def Let_def split: option.splits prod.splits)
  have 4: "\<not> reached \<longrightarrow>
      (\<forall>p. ProcessBlock (c\<lparr>checkBlockSanityContextual := p\<rparr>) b block flags = r)"
    unfolding r_def prevHash_def agenda_def reached_def
    by (auto simp: ProcessBlock_def Let_def split: option.splits prod.splits)
  have 5: "(\<forall>h. CallIsTreasuryAgendaActiveByHash h \<in> set (calls r) \<longrightarrow> h = prevHash) \<and>
   (\<forall>v. CallCheckBlockSanityContextual v \<in> set (calls r) \<longrightarrow>
        reached \<and> v = fst agenda \<and>
        (\<exists>post. calls r =
           [CallHaveBlock (blockHash block), CallCheckBlockSanityContextFree,
            CallHaveBlock prevHash, CallIsTreasuryAgendaActiveByHash prevHash,
            CallCheckBlockSanityContextual v] @ post))"
    unfolding r_def prevHash_def agenda_def reached_def
    by (cases rule: ProcessBlock_outcome_cases [where b = b and block = block and c = c and flags = flags])
       (auto simp: ProcessBlock_outcomes)
  from 1 2 3 4 5 show ?thesis by blast
qed

theorem ProcessBlock_agenda_from_parent_witness:
  "isTreasuryAgendaActiveByHash testCollaborators testChain hashA3 = (True, None) \<and>
   err (ProcessBlock testCollaborators testChain (testBlock hashA4 hashA3 3 901) BFNone) =
     Some (ruleError (ErrOtherRule 0) ''block violates the treasury rules'') \<and>
   chain (ProcessBlock testCollaborators testChain (testBlock hashA4 hashA3 3 901) BFNone) =
     testChain \<and>
   isTreasuryAgendaActiveByHash testCollaborators testChain hashA1 = (False, None) \<and>
   err (ProcessBlock testCollaborators testChain (testBlock hashC1 hashA1 1 901) BFNone) = None"
proof -
  have a: "err (ProcessBlock testCollaborators testChain (testBlock hashA4 hashA3 3 901) BFNone) =
       Some (ruleError (ErrOtherRule 0) ''block violates the treasury rules'') \<and>
     chain (ProcessBlock testCollaborators testChain (testBlock hashA4 hashA3 3 901) BFNone) =
       testChain"
    using ProcessBlock_agenda_from_parent
      [where c = testCollaborators and b = testChain and flags = BFNone
         and block = "testBlock hashA4 hashA3 3 901"]
    by (simp add: testBlock_sel testChain_sel HaveBlock_testIndex test_sanity_odd test_agenda)
  have b: "err (ProcessBlock testCollaborators testChain (testBlock hashC1 hashA1 1 901) BFNone) = None"
    using ProcessBlock_agenda_from_parent
      [where c = testCollaborators and b = testChain and flags = BFNone
         and block = "testBlock hashC1 hashA1 1 901"]
    by (simp add: testBlock_sel testChain_sel HaveBlock_testIndex test_sanity_odd test_agenda
          maybeAcceptBlock_side_scenario)
  from a b test_agenda show ?thesis by simp
qed










text \<open>
  Claim C1, as amended.  With \<open>maybeAcceptBlock\<close> as the specification describes it, a
  block that is not in the index, passes both sanity checks and has a known parent
  is accepted with fork length 0 and becomes the best chain tip in two cases: when
  its parent is the best chain tip (the index gains its entry, marked main chain),
  and when its cumulative work exceeds that of the tip and its chain meets the best
  chain in a common ancestor (the index is the reorganized one).
\<close>

theorem ProcessBlock_fork_length:
  assumes acc: "maybeAcceptBlock c = specMaybeAcceptBlock calcWork"
    and new: "\<not> HaveBlock (index b) (blockHash block)"
    and sane: "checkBlockSanityContextFree c block (timeSource b) flags (chainParams b) = None"
    and agenda: "isTreasuryAgendaActiveByHash c b (PrevBlock (Header (msgBlock block))) = (v, None)"
    and saneCtx: "checkBlockSanityContextual c block (timeSource b) flags (chainParams b) v = None"
    and par: "index b (PrevBlock (Header (msgBlock block))) = Some prevNode"
    and idx: "idx = insertNode (index b) (blockHash block)
                 \<lparr>parent = PrevBlock (Header (msgBlock block)),
                  height = height prevNode + 1,
                  workSum = workSum prevNode + calcWork (Header (msgBlock block)),
                  inMainChain = False\<rparr>"
    and best: "PrevBlock (Header (msgBlock block)) = bestChainTip b \<or>
               idx (bestChainTip b) = Some tipNode \<and>
               commonAncestor idx (blockHash block) (bestChainTip b) = Some fork \<and>
               workSum tipNode < workSum prevNode + calcWork (Header (msgBlock block))"
  shows "forkLen (ProcessBlock c b block flags) = 0 \<and>
         err (ProcessBlock c b block flags) = None \<and>
         bestChainTip (chain (ProcessBlock c b block flags)) = blockHash block \<and>
         (PrevBlock (Header (msgBlock block)) = bestChainTip b \<longrightarrow>
            index (chain (ProcessBlock c b block flags)) =
              (index b)(blockHash block \<mapsto>
                 \<lparr>parent = PrevBlock (Header (msgBlock block)),
                  height = height prevNode + 1,
                  workSum = workSum prevNode + calcWork (Header (msgBlock block)),
                  inMainChain = True\<rparr>)) \<and>
         (PrevBlock (Header (msgBlock block)) \<noteq> bestChainTip b \<longrightarrow>
            index (chain (ProcessBlock c b block flags)) =
              reorganizeChain idx fork (bestChainTip b) (blockHash block))"
proof -
  have known: "HaveBlock (index b) (PrevBlock (Header (msgBlock block)))"
    using par by (simp add: HaveBlock_def)
  show ?thesis
  proof (cases "PrevBlock (Header (msgBlock block)) = bestChainTip b")
    case True
    from specMaybeAcceptBlock_extend [OF par True, of calcWork flags]
    have "maybeAcceptBlock c b block flags =
       ((0, None),
        b\<lparr>index := insertNode (index b) (blockHash block)
                     \<lparr>parent = PrevBlock (Header (msgBlock block)),
                      height = height prevNode + 1,
                      workSum = workSum prevNode + calcWork (Header (msgBlock block)),
                      inMainChain = True\<rparr>,
          bestChainTip := blockHash block\<rparr>)"
      by (simp add: acc)
    from ProcessBlock_accept_outcome [OF new sane known agenda saneCtx this] True new
    show ?thesis by (simp add: insertNode_def)
  next
    case False
    with best have tip: "idx (bestChainTip b) = Some tipNode"
      and fork: "commonAncestor idx (blockHash block) (bestChainTip b) = Some fork"
      and work: "workSum tipNode < workSum prevNode + calcWork (Header (msgBlock block))"
      by simp_all
    have "specMaybeAcceptBlock calcWork b block flags =
       ((0, None),
        b\<lparr>index := reorganizeChain idx fork (bestChainTip b) (blockHash block),
          bestChainTip := blockHash block\<rparr>)"
      using par False idx tip fork work by (rule specMaybeAcceptBlock_reorganize)
    then have "maybeAcceptBlock c b block flags =
       ((0, None),
        b\<lparr>index := reorganizeChain idx fork (bestChainTip b) (blockHash block),
          bestChainTip := blockHash block\<rparr>)"
      by (simp add: acc)
    from ProcessBlock_accept_outcome [OF new sane known agenda saneCtx this] False
    show ?thesis by simp
  qed
qed


text \<open>
  The scenario of the claim: the best chain is A1, A2, A3, the side branch B1, B2
  stands on A1, and B3 on top of B2 has more cumulative work (4) than A3 (3).
  Accepting B3 makes it the best chain tip, demotes A2 and A3 and promotes B1, B2
  and B3, and the fork length returned is 0, not 2.
\<close>

theorem reorganize_fork_length_is_not_2:
  "chainOf (index testChain) (bestChainTip testChain) = [hashA3, hashA2, hashA1] \<and>
   chainOf (index testChain) hashB2 = [hashB2, hashB1, hashA1] \<and>
   PrevBlock (Header (msgBlock (testBlock hashB3 hashB2 3 900))) = hashB2 \<and>
   map (\<lambda>h. map_option workSum (index testChain h)) [hashA3, hashB2] = [Some 3, Some 3] \<and>
   testCalcWork (Header (msgBlock (testBlock hashB3 hashB2 3 900))) = 1 \<and>
   err (ProcessBlock testCollaborators testChain (testBlock hashB3 hashB2 3 900) BFNone) = None \<and>
   forkLen (ProcessBlock testCollaborators testChain (testBlock hashB3 hashB2 3 900) BFNone) = 0 \<and>
   forkLen (ProcessBlock testCollaborators testChain (testBlock hashB3 hashB2 3 900) BFNone) \<noteq> 2 \<and>
   bestChainTip (chain (ProcessBlock testCollaborators testChain
                          (testBlock hashB3 hashB2 3 900) BFNone)) = hashB3 \<and>
   map (\<lambda>h. map_option inMainChain
               (index (chain (ProcessBlock testCollaborators testChain
                                (testBlock hashB3 hashB2 3 900) BFNone)) h))
     [hashA1, hashA2, hashA3, hashB1, hashB2, hashB3] =
     [Some True, Some False, Some False, Some True, Some True, Some True]"
  using reorganizeChain_scenario_lookup
  by (simp add: ProcessBlock_reorganize_scenario chainOf_testIndex scenario_facts)

theorem ProcessBlock_fork_length_witness:
  "forkLen (ProcessBlock testCollaborators testChain (testBlock hashA4 hashA3 3 900) BFNone) = 0 \<and>
   err (ProcessBlock testCollaborators testChain (testBlock hashA4 hashA3 3 900) BFNone) = None \<and>
   bestChainTip (chain (ProcessBlock testCollaborators testChain
                          (testBlock hashA4 hashA3 3 900) BFNone)) = hashA4 \<and>
   index (chain (ProcessBlock testCollaborators testChain
                   (testBlock hashA4 hashA3 3 900) BFNone)) hashA4 =
     Some \<lparr>parent = hashA3, height = 3, workSum = 4, inMainChain = True\<rparr> \<and>
   forkLen (ProcessBlock testCollaborators testChain (testBlock hashB3 hashB2 3 900) BFNone) = 0 \<and>
   err (ProcessBlock testCollaborators testChain (testBlock hashB3 hashB2 3 900) BFNone) = None \<and>
   bestChainTip (chain (ProcessBlock testCollaborators testChain
                          (testBlock hashB3 hashB2 3 900) BFNone)) = hashB3 \<and>
   index (chain (ProcessBlock testCollaborators testChain
                   (testBlock hashB3 hashB2 3 900) BFNone)) =
     reorganizeChain (testIndex(hashB3 \<mapsto> nodeB3)) hashA1 hashA3 hashB3"
proof -
  have ext:
    "forkLen (ProcessBlock testCollaborators testChain (testBlock hashA4 hashA3 3 900) BFNone) = 0 \<and>
     err (ProcessBlock testCollaborators testChain (testBlock hashA4 hashA3 3 900) BFNone) = None \<and>
     bestChainTip (chain (ProcessBlock testCollaborators testChain
                          (testBlock hashA4 hashA3 3 900) BFNone)) = hashA4 \<and>
     index (chain (ProcessBlock testCollaborators testChain
                   (testBlock hashA4 hashA3 3 900) BFNone)) hashA4 =
       Some \<lparr>parent = hashA3, height = 3, workSum = 4, inMainChain = True\<rparr>"
    using ProcessBlock_fork_length
      [where c = testCollaborators and calcWork = testCalcWork and b = testChain
         and block = "testBlock hashA4 hashA3 3 900" and flags = BFNone and v = True
         and prevNode = "\<lparr>parent = hashA2, height = 2, workSum = 3, inMainChain = True\<rparr>",
       OF testCollaborators_sel(4) _ _ _ _ _ refl]
    by (simp add: scenario_facts)
  have reorg:
    "forkLen (ProcessBlock testCollaborators testChain (testBlock hashB3 hashB2 3 900) BFNone) = 0 \<and>
     err (ProcessBlock testCollaborators testChain (testBlock hashB3 hashB2 3 900) BFNone) = None \<and>
     bestChainTip (chain (ProcessBlock testCollaborators testChain
                          (testBlock hashB3 hashB2 3 900) BFNone)) = hashB3 \<and>
     index (chain (ProcessBlock testCollaborators testChain
                   (testBlock hashB3 hashB2 3 900) BFNone)) =
       reorganizeChain (testIndex(hashB3 \<mapsto> nodeB3)) hashA1 hashA3 hashB3"
    using ProcessBlock_fork_length
      [where c = testCollaborators and calcWork = testCalcWork and b = testChain
         and block = "testBlock hashB3 hashB2 3 900" and flags = BFNone and v = True
         and prevNode = "\<lparr>parent = hashB1, height = 2, workSum = 3, inMainChain = False\<rparr>"
         and tipNode = "\<lparr>parent = hashA2, height = 2, workSum = 3, inMainChain = True\<rparr>"
         and fork = hashA1 and idx = "testIndex(hashB3 \<mapsto> nodeB3)",
       OF testCollaborators_sel(4)]
    by (simp add: scenario_facts)
  from ext reorg show ?thesis by simp
qed


section \<open>Properties of the RPC codec\<close>

subsection \<open>Hexadecimal strings\<close>

lemma fromHexChar_digits:
  "\<forall>n \<in> {..<16}. fromHexChar (hextable ! n) = Some n"
  by (simp add: lessThan_nat_numeral lessThan_Suc hextable_def fromHexChar_def)

lemma fromHexChar_hextable:
  assumes "n < 16"
  shows "fromHexChar (hextable ! n) = Some n"
  using assms fromHexChar_digits by blast

lemma EncodeToString_Nil [simp]: "EncodeToString [] = []"
  by (simp add: EncodeToString_def)

lemma EncodeToString_Cons:
  "EncodeToString (v # src) =
     hextable ! (unat v div 16) # hextable ! (unat v mod 16) # EncodeToString src"
  by (simp add: EncodeToString_def)

lemma EncodeToString_append:
  "EncodeToString (xs @ ys) = EncodeToString xs @ EncodeToString ys"
  by (simp add: EncodeToString_def)

lemma EncodeToString_concat:
  "EncodeToString (concat xss) = concat (map EncodeToString xss)"
  by (induction xss) (simp_all add: EncodeToString_append)

lemma length_EncodeToString: "length (EncodeToString src) = 2 * length src"
  by (induction src) (simp_all add: EncodeToString_Cons)

lemma byte_of_nibbles: "of_nat (unat v div 16 * 16 + unat v mod 16) = (v :: byte)"
  by simp

lemma unat_byte_div_16: "unat (v :: byte) div 16 < 16"
proof -
  have "unat v < 256" using unsigned_less [of v, where 'a = nat] by simp
  then show ?thesis by simp
qed

lemma DecodeString_EncodeToString: "DecodeString (EncodeToString src) = Some src"
proof (induction src)
  case Nil
  show ?case by simp
next
  case (Cons v src)
  have hi: "fromHexChar (hextable ! (unat v div 16)) = Some (unat v div 16)"
    by (rule fromHexChar_hextable) (rule unat_byte_div_16)
  have lo: "fromHexChar (hextable ! (unat v mod 16)) = Some (unat v mod 16)"
    by (rule fromHexChar_hextable) simp
  show ?case
    by (simp only: EncodeToString_Cons DecodeString.simps hi lo Cons.IH option.case
          byte_of_nibbles)
qed

subsection \<open>Hashes\<close>

lemma splitHashes_concat:
  assumes "list_all validHash hs"
  shows "splitHashes (length hs) (concat hs) = hs"
  using assms by (induction hs) (simp_all add: validHash_def)

lemma length_concat_hashes:
  assumes "list_all validHash hs"
  shows "length (concat hs) = HashSize * length hs"
  using assms by (induction hs) (simp_all add: validHash_def)

lemma testHash_valid: "validHash testHash1" "validHash testHash2"
  by (simp_all add: validHash_def HashSize_def testHash1_def testHash2_def)

lemma testHash_hex:
  "EncodeToString testHash1 =
     ''80d9212bf4ceb066ded2866b39d4ed89e0ab60f335c11df8e7bf85d9c35c8e29''"
  "EncodeToString testHash2 =
     ''b926d1870d6f88760a8b10db0d4439e5cd74f3827fd4b6827443000000000000''"
  by (simp_all add: testHash1_def testHash2_def EncodeToString_def hextable_def)

lemma EncodeConcatenatedHashes_valid:
  assumes "list_all validHash hs"
  shows "EncodeConcatenatedHashes hs = Inr (concat (map EncodeToString hs))"
  using assms by (simp add: EncodeConcatenatedHashes_def EncodeToString_concat)

lemma DecodeConcatenatedHashes_valid:
  assumes "list_all validHash hs"
  shows "DecodeConcatenatedHashes (concat (map EncodeToString hs)) = Inr hs"
proof -
  have len: "length (EncodeToString (concat hs)) = 2 * HashSize * length hs"
    by (simp add: length_EncodeToString length_concat_hashes [OF assms])
  have "0 < HashSize" by (simp add: HashSize_def)
  then have num: "length (EncodeToString (concat hs)) div (2 * HashSize) = length hs"
    by (simp add: len)
  show ?thesis
    unfolding EncodeToString_concat [symmetric] DecodeConcatenatedHashes_def Let_def num
    by (simp add: len DecodeString_EncodeToString splitHashes_concat [OF assms])
qed

subsection \<open>Vote bits\<close>

lemma Bits_little_endian:
  "or (ucast (ucast w :: byte)) (push_bit 8 (ucast (ucast (drop_bit 8 w) :: byte))) = (w :: 16 word)"
  by (rule bit_word_eqI) (auto simp: bit_simps)


lemma unat_length_byte:
  assumes "validVoteBits vb"
  shows "unat (of_nat (2 + length (ExtendedBits vb)) :: byte) = 2 + length (ExtendedBits vb)"
proof -
  from assms have "2 + length (ExtendedBits vb) < 256"
    by (simp add: validVoteBits_def MaxSingleBytePushLength_def)
  then show ?thesis
    by (simp only: unat_of_nat) simp
qed

lemma unat_length_byte_simp:
  assumes "validVoteBits vb"
  shows "unat (2 + word_of_nat (length (ExtendedBits vb)) :: byte) =
     Suc (Suc (length (ExtendedBits vb)))"
  using unat_length_byte [OF assms] by simp

lemma readVoteBits_record:
  assumes "validVoteBits vb"
  shows "readVoteBits (voteBitsBytes vb @ rest) =
     (case readVoteBits rest of Inl e \<Rightarrow> Inl e | Inr vbs \<Rightarrow> Inr (vb # vbs))"
  by (simp add: voteBitsBytes_def unat_length_byte_simp [OF assms] Bits_little_endian
        split: sum.splits)

lemma readVoteBits_records:
  assumes "list_all validVoteBits vbs"
  shows "readVoteBits (concat (map voteBitsBytes vbs) @ rest) =
     (case readVoteBits rest of Inl e \<Rightarrow> Inl e | Inr ws \<Rightarrow> Inr (vbs @ ws))"
  using assms
  by (induction vbs) (auto simp: readVoteBits_record split: sum.splits)

lemma encode_guard:
  "list_ex (\<lambda>vb. MaxSingleBytePushLength - 2 < length (ExtendedBits vb)) vbs \<longleftrightarrow>
     \<not> list_all validVoteBits vbs"
  by (induction vbs) (auto simp: validVoteBits_def)

lemma EncodeConcatenatedVoteBits_valid:
  assumes "list_all validVoteBits vbs"
  shows "EncodeConcatenatedVoteBits vbs =
     Inr (EncodeToString (concat (map voteBitsBytes vbs)))"
  using assms by (simp add: EncodeConcatenatedVoteBits_def encode_guard)

lemma DecodeConcatenatedVoteBits_bytes:
  "DecodeConcatenatedVoteBits (EncodeToString bs) = readVoteBits bs"
  by (simp add: DecodeConcatenatedVoteBits_def DecodeString_EncodeToString)

lemma readVoteBits_short_record:
  assumes "validVoteBits vb"
  shows "readVoteBits (butlast (voteBitsBytes vb)) = Inl ErrShortRead"
  by (simp add: voteBitsBytes_def unat_length_byte_simp [OF assms])

lemma voteBitsBytes_not_Nil: "voteBitsBytes vb \<noteq> []"
  by (simp add: voteBitsBytes_def)

lemma butlast_concat_records:
  assumes "vbs \<noteq> []"
  shows "butlast (concat (map voteBitsBytes vbs)) =
     concat (map voteBitsBytes (butlast vbs)) @ butlast (voteBitsBytes (last vbs))"
  using assms
  by (induction vbs) (auto simp: butlast_append voteBitsBytes_not_Nil)

lemma readVoteBits_one_byte_short:
  assumes "list_all validVoteBits vbs" and "vbs \<noteq> []"
  shows "readVoteBits (butlast (concat (map voteBitsBytes vbs))) = Inl ErrShortRead"
proof -
  from assms have v: "list_all validVoteBits (butlast vbs)" and l: "validVoteBits (last vbs)"
    by (auto simp: list_all_iff dest: in_set_butlastD)
  show ?thesis
    by (simp add: butlast_concat_records [OF assms(2)] readVoteBits_records [OF v]
          readVoteBits_short_record [OF l])
qed

lemma readVoteBits_single_byte: "isl (readVoteBits [x])"
  by simp

lemma readVoteBits_one_byte_long:
  assumes "list_all validVoteBits vbs"
  shows "isl (readVoteBits (concat (map voteBitsBytes vbs) @ [x]))"
proof -
  obtain e where "readVoteBits [x] = Inl e"
    using readVoteBits_single_byte [of x] by (cases "readVoteBits [x]") simp_all
  then show ?thesis
    by (simp add: readVoteBits_records [OF assms] del: readVoteBits.simps)
qed

lemma readVoteBits_bad_length:
  assumes "list_all validVoteBits vbs" and "unat n < 2"
  shows "readVoteBits (concat (map voteBitsBytes vbs) @ n # rest) = Inl ErrBadRecordLength"
  using assms(2) by (simp add: readVoteBits_records [OF assms(1)])

lemma testVbs_valid: "list_all validVoteBits testVbs"
  by (simp add: testVbs_def validVoteBits_def MaxSingleBytePushLength_def)

lemma testVbs_bytes: "concat (map voteBitsBytes testVbs) = expectedEncoded"
  by (simp add: testVbs_def voteBitsBytes_def expectedEncoded_def)

lemma encodedBytes_records: "encodedBytes = concat (map voteBitsBytes (tl testVbs))"
  by (simp add: testVbs_def voteBitsBytes_def encodedBytes_def)

lemma voteBitsBytes_numeric:
  "\<exists>n lo hi. voteBitsBytes vb = n # lo # hi # ExtendedBits vb \<and>
      unat (Bits vb) = unat lo + 256 * unat hi \<and>
      (validVoteBits vb \<longrightarrow> unat n = 2 + length (ExtendedBits vb))"
proof -
  have "unat (Bits vb) < 65536"
    using unsigned_less [of "Bits vb", where 'a = nat] by simp
  then have "unat (Bits vb) div 256 mod 256 = unat (Bits vb) div 256"
    by simp
  then have "unat (Bits vb) =
      unat (ucast (Bits vb) :: byte) + 256 * unat (ucast (drop_bit 8 (Bits vb)) :: byte)"
    by (simp add: unsigned_ucast_eq unat_drop_bit_eq take_bit_eq_mod drop_bit_eq_div unat_div_distrib)
  then show ?thesis
    by (auto simp: voteBitsBytes_def unat_length_byte_simp)
qed


subsection \<open>The claims about the codec\<close>

text \<open>
  Claim C8.  Encoding a list of hashes, each of the fixed width, gives the
  concatenation, in order and without separators, of the hexadecimal encodings of
  the hashes, and decoding that string gives the list back; the empty list encodes
  to the empty string.  Encoding a list of vote-bits records whose extended bits
  are within the bound succeeds, and decoding the result gives the list back.
\<close>

theorem codec_round_trip:
  "(list_all validHash hs \<longrightarrow>
      EncodeConcatenatedHashes hs = Inr (concat (map EncodeToString hs)) \<and>
      DecodeConcatenatedHashes (concat (map EncodeToString hs)) = Inr hs) \<and>
   EncodeConcatenatedHashes [] = Inr [] \<and>
   (list_all validVoteBits vbs \<longrightarrow>
      (\<exists>s. EncodeConcatenatedVoteBits vbs = Inr s \<and> DecodeConcatenatedVoteBits s = Inr vbs))"
proof (intro conjI impI)
  assume "list_all validVoteBits vbs"
  then show "\<exists>s. EncodeConcatenatedVoteBits vbs = Inr s \<and> DecodeConcatenatedVoteBits s = Inr vbs"
    using readVoteBits_records [of vbs "[]"]
    by (simp add: EncodeConcatenatedVoteBits_valid DecodeConcatenatedVoteBits_bytes)
qed (simp_all add: EncodeConcatenatedHashes_valid DecodeConcatenatedHashes_valid)

theorem codec_round_trip_witness:
  "list_all validHash [testHash1, testHash2] \<and>
   EncodeConcatenatedHashes [testHash1, testHash2] =
     Inr (''80d9212bf4ceb066ded2866b39d4ed89e0ab60f335c11df8e7bf85d9c35c8e29'' @
          ''b926d1870d6f88760a8b10db0d4439e5cd74f3827fd4b6827443000000000000'') \<and>
   DecodeConcatenatedHashes
     (''80d9212bf4ceb066ded2866b39d4ed89e0ab60f335c11df8e7bf85d9c35c8e29'' @
      ''b926d1870d6f88760a8b10db0d4439e5cd74f3827fd4b6827443000000000000'') = Inr [testHash1, testHash2] \<and>
   list_all validVoteBits testVbs \<and>
   DecodeConcatenatedVoteBits (EncodeToString expectedEncoded) = Inr testVbs"
proof -
  have h: "list_all validHash [testHash1, testHash2]"
    by (simp add: testHash_valid)
  have e: "EncodeConcatenatedVoteBits testVbs = Inr (EncodeToString expectedEncoded)"
    by (simp add: EncodeConcatenatedVoteBits_valid testVbs_valid testVbs_bytes)
  from codec_round_trip [of "[testHash1, testHash2]" testVbs] h testVbs_valid e
  show ?thesis by (simp add: testHash_hex)
qed


text \<open>
  Claim C9.  Decoding returns an error, and so no records at all, on the bytes of a
  valid encoding with the last byte missing, on the bytes of a valid encoding with
  one more byte after them, and on a record whose length byte is below 2, the size
  of \<open>Bits\<close>.  Encoding returns an error as soon as one record has more extended
  bits than the bound allows; 74 bytes are too many.
\<close>

theorem vote_bits_codec_failures:
  "(list_all validVoteBits vbs \<and> vbs \<noteq> [] \<longrightarrow>
      DecodeConcatenatedVoteBits
        (EncodeToString (butlast (concat (map voteBitsBytes vbs)))) = Inl ErrShortRead) \<and>
   (list_all validVoteBits vbs \<longrightarrow>
      isl (DecodeConcatenatedVoteBits
             (EncodeToString (concat (map voteBitsBytes vbs) @ [x])))) \<and>
   (list_all validVoteBits vbs \<and> unat n < 2 \<longrightarrow>
      DecodeConcatenatedVoteBits
        (EncodeToString (concat (map voteBitsBytes vbs) @ n # rest)) =
        Inl ErrBadRecordLength) \<and>
   (list_ex (\<lambda>vb. MaxSingleBytePushLength - 2 < length (ExtendedBits vb)) ws \<longrightarrow>
      EncodeConcatenatedVoteBits ws = Inl ErrExtendedBitsTooLong)"
  by (simp add: DecodeConcatenatedVoteBits_bytes readVoteBits_one_byte_short
        readVoteBits_one_byte_long readVoteBits_bad_length EncodeConcatenatedVoteBits_def
        del: readVoteBits.simps)

theorem vote_bits_codec_failures_witness:
  "DecodeConcatenatedVoteBits (EncodeToString encodedBytes) = Inr (tl testVbs) \<and>
   DecodeConcatenatedVoteBits (EncodeToString (butlast encodedBytes)) = Inl ErrShortRead \<and>
   isl (DecodeConcatenatedVoteBits (EncodeToString (encodedBytes @ [0x06]))) \<and>
   DecodeConcatenatedVoteBits (EncodeToString (0x01 # tl encodedBytes @ [0x06])) =
     Inl ErrBadRecordLength \<and>
   EncodeConcatenatedVoteBits [\<lparr>Bits = 0, ExtendedBits = replicate 74 0x00\<rparr>] =
     Inl ErrExtendedBitsTooLong"
proof -
  have v: "list_all validVoteBits (tl testVbs)" and n: "tl testVbs \<noteq> []"
    using testVbs_valid by (simp_all add: testVbs_def)
  have ok: "DecodeConcatenatedVoteBits (EncodeToString encodedBytes) = Inr (tl testVbs)"
    using readVoteBits_records [OF v, of "[]"]
    by (simp add: DecodeConcatenatedVoteBits_bytes encodedBytes_records)
  have long: "list_ex (\<lambda>vb. MaxSingleBytePushLength - 2 < length (ExtendedBits vb))
                [\<lparr>Bits = 0, ExtendedBits = replicate 74 0x00\<rparr>]"
    by (simp add: MaxSingleBytePushLength_def)
  have nil: "list_all validVoteBits []" and one: "unat (0x01 :: byte) < 2"
    by simp_all
  from vote_bits_codec_failures
         [of "tl testVbs" "0x06" "0x01" "[]" "[\<lparr>Bits = 0, ExtendedBits = replicate 74 0x00\<rparr>]"]
       v n long
  have a: "DecodeConcatenatedVoteBits (EncodeToString (butlast encodedBytes)) = Inl ErrShortRead"
    and b: "isl (DecodeConcatenatedVoteBits (EncodeToString (encodedBytes @ [0x06])))"
    and d: "EncodeConcatenatedVoteBits [\<lparr>Bits = 0, ExtendedBits = replicate 74 0x00\<rparr>] =
              Inl ErrExtendedBitsTooLong"
    by (simp_all add: encodedBytes_records)
  from vote_bits_codec_failures
         [of "[]" "0x06" "0x01" "tl encodedBytes @ [0x06]" "[]"] nil one
  have c: "DecodeConcatenatedVoteBits (EncodeToString (0x01 # tl encodedBytes @ [0x06])) =
             Inl ErrBadRecordLength"
    by simp
  from ok a b c d show ?thesis by simp
qed

text \<open>
  Claim C7, as amended.  The encoding of a list of vote-bits records within the bound
  is the concatenation of the encodings of its records, and a record is encoded as
  one length byte equal to 2 plus the number of extended bits (the number of bytes
  that follow it), then \<open>Bits\<close> in two bytes, low byte first, then the extended bits.
  The record \<open>{Bits: 0, ExtendedBits: []}\<close> is the three bytes 02 00 00.
\<close>

theorem EncodeConcatenatedVoteBits_format:
  assumes "list_all validVoteBits vbs"
  shows "EncodeConcatenatedVoteBits vbs =
           Inr (concat (map (\<lambda>vb. EncodeToString (voteBitsBytes vb)) vbs)) \<and>
         (\<forall>vb \<in> set vbs. \<exists>n lo hi.
            voteBitsBytes vb = n # lo # hi # ExtendedBits vb \<and>
            unat n = 2 + length (ExtendedBits vb) \<and>
            unat (Bits vb) = unat lo + 256 * unat hi)"
proof
  show "EncodeConcatenatedVoteBits vbs =
          Inr (concat (map (\<lambda>vb. EncodeToString (voteBitsBytes vb)) vbs))"
    by (simp add: EncodeConcatenatedVoteBits_valid [OF assms] EncodeToString_concat comp_def)
  show "\<forall>vb \<in> set vbs. \<exists>n lo hi.
            voteBitsBytes vb = n # lo # hi # ExtendedBits vb \<and>
            unat n = 2 + length (ExtendedBits vb) \<and>
            unat (Bits vb) = unat lo + 256 * unat hi"
  proof
    fix vb assume "vb \<in> set vbs"
    with assms have "validVoteBits vb" by (simp add: list_all_iff)
    with voteBitsBytes_numeric [of vb]
    show "\<exists>n lo hi. voteBitsBytes vb = n # lo # hi # ExtendedBits vb \<and>
            unat n = 2 + length (ExtendedBits vb) \<and>
            unat (Bits vb) = unat lo + 256 * unat hi"
      by blast
  qed
qed

theorem EncodeConcatenatedVoteBits_format_witness:
  "list_all validVoteBits testVbs \<and>
   EncodeConcatenatedVoteBits testVbs =
     Inr (''020000'' @ ''03000000'' @ ''06231201020304'' @ ''07aaaa0102030405'') \<and>
   EncodeToString expectedEncoded =
     ''020000'' @ ''03000000'' @ ''06231201020304'' @ ''07aaaa0102030405''"
proof -
  have "map (\<lambda>vb. EncodeToString (voteBitsBytes vb)) testVbs =
      [''020000'', ''03000000'', ''06231201020304'', ''07aaaa0102030405'']"
    by (simp add: testVbs_def voteBitsBytes_def EncodeToString_def hextable_def)
  moreover have "EncodeToString expectedEncoded =
     ''020000'' @ ''03000000'' @ ''06231201020304'' @ ''07aaaa0102030405''"
    by (simp add: expectedEncoded_def EncodeToString_def hextable_def)
  ultimately show ?thesis
    using EncodeConcatenatedVoteBits_format [OF testVbs_valid] testVbs_valid by simp
qed

text \<open>
  With a length prefix of two bytes the record \<open>{Bits: 0, ExtendedBits: []}\<close> would
  be the four bytes 02 00 00 00.  It is the three bytes 02 00 00, and the bytes that
  \<open>TestEncodeConcatenatedVoteBits\<close> expects for its four records are not those of
  the two-byte reading.
\<close>

theorem vote_bits_length_prefix_is_one_byte:
  "EncodeConcatenatedVoteBits [\<lparr>Bits = 0, ExtendedBits = []\<rparr>] = Inr ''020000'' \<and>
   EncodeToString (claimedVoteBitsBytes \<lparr>Bits = 0, ExtendedBits = []\<rparr>) = ''02000000'' \<and>
   EncodeConcatenatedVoteBits [\<lparr>Bits = 0, ExtendedBits = []\<rparr>] \<noteq>
     Inr (EncodeToString (claimedVoteBitsBytes \<lparr>Bits = 0, ExtendedBits = []\<rparr>)) \<and>
   EncodeConcatenatedVoteBits testVbs = Inr (EncodeToString expectedEncoded) \<and>
   expectedEncoded \<noteq> concat (map claimedVoteBitsBytes testVbs)"
proof -
  have "EncodeConcatenatedVoteBits testVbs = Inr (EncodeToString expectedEncoded)"
    by (simp add: EncodeConcatenatedVoteBits_valid testVbs_valid testVbs_bytes)
  moreover have "expectedEncoded \<noteq> concat (map claimedVoteBitsBytes testVbs)"
    by (simp add: expectedEncoded_def testVbs_def claimedVoteBitsBytes_def)
  moreover have "EncodeConcatenatedVoteBits [\<lparr>Bits = 0, ExtendedBits = []\<rparr>] = Inr ''020000''"
    by (simp add: EncodeConcatenatedVoteBits_def MaxSingleBytePushLength_def voteBitsBytes_def
          EncodeToString_def hextable_def)
  moreover have "EncodeToString (claimedVoteBitsBytes \<lparr>Bits = 0, ExtendedBits = []\<rparr>) = ''02000000''"
    by (simp add: claimedVoteBitsBytes_def EncodeToString_def hextable_def)
  ultimately show ?thesis by simp
qed

end
